theory Spec2Isabelle
  imports Main "HOL-Library.Word"
begin

section \<open>Contract tasks of the ledger: data model\<close>

text \<open>
  The development follows \<^verbatim>\<open>ledger/byzcoin/contract/task.go\<close>: the three client tasks
  with their fingerprints, and the server task whose \<^verbatim>\<open>Consume\<close> turns a client task
  into one write on an inventory page.

  Go's \<^verbatim>\<open>[]byte\<close> is a list of 8-bit words; a Go string is a sequence of bytes, here a
  \<^typ>\<open>string\<close>, and the conversion \<^verbatim>\<open>[]byte(s)\<close> maps every character to its byte.
\<close>

type_synonym byte = "8 word"
type_synonym bytes = "byte list"

definition bytes_of_string :: "string \<Rightarrow> bytes" where
  "bytes_of_string s = map of_char s"

text \<open>
  Every error of the file is built by \<^verbatim>\<open>xerrors.New\<close> or \<^verbatim>\<open>xerrors.Errorf\<close>; each
  constructor below is one of these messages, and a constructor with an \<open>error\<close> argument
  is a message that ends in \<^verbatim>\<open>: %v\<close> of the error it annotates. \<open>Failure\<close> is an error
  made by a collaborator (writer, encoder, page, access control, contract), by its text.
  \<open>Refused\<close> keeps the rule and the cause of the message of \<^verbatim>\<open>hasAccess\<close>; the printed
  identity and access control of that message are not kept.
\<close>

datatype error =
    Failure string
  | CouldntWriteContract error
  | CouldntWriteKey error
  | CouldntWriteArgument error
  | InvalidTaskType string
  | CouldntWriteInstance error
  | InstanceAlreadyExists
  | ContractNotFound string
  | CouldntExecuteSpawn error
  | NoAccess error
  | CouldntReadInstance error
  | CouldntInvoke error
  | CouldntReadAccess error
  | Refused string error

text \<open>
  The client tasks: \<^verbatim>\<open>SpawnTask{ContractID, Argument}\<close>, \<^verbatim>\<open>InvokeTask{Key, Argument}\<close>
  and \<^verbatim>\<open>DeleteTask{Key}\<close>. The argument is an opaque message of type \<open>'a\<close>.
\<close>

datatype 'a ClientTask =
    SpawnTask string 'a
  | InvokeTask bytes 'a
  | DeleteTask bytes

section \<open>Fingerprints\<close>

text \<open>
  An \<^verbatim>\<open>io.Writer\<close> is a state \<open>'w\<close> with its \<^verbatim>\<open>Write\<close> method, which returns the error (if
  any) and the writer afterwards. The count of bytes that \<^verbatim>\<open>Write\<close> also returns is
  dropped by every caller in the file, and so by the model. The encoder is used through
  \<^verbatim>\<open>MarshalStable(w, message)\<close> alone, which gets the writer and the message.
\<close>

type_synonym 'w Writer = "'w \<Rightarrow> bytes \<Rightarrow> error option \<times> 'w"
type_synonym ('w, 'a) ProtoMarshaler = "'w Writer \<Rightarrow> 'w \<Rightarrow> 'a \<Rightarrow> error option \<times> 'w"

definition SpawnTask_Fingerprint ::
  "string \<Rightarrow> 'a \<Rightarrow> 'w Writer \<Rightarrow> ('w, 'a) ProtoMarshaler \<Rightarrow> 'w \<Rightarrow> error option \<times> 'w" where
  "SpawnTask_Fingerprint contractID argument Write e w =
     (case Write w (bytes_of_string contractID) of
        (Some err, w1) \<Rightarrow> (Some (CouldntWriteContract err), w1)
      | (None, w1) \<Rightarrow>
          (case e Write w1 argument of
             (Some err, w2) \<Rightarrow> (Some (CouldntWriteArgument err), w2)
           | (None, w2) \<Rightarrow> (None, w2)))"

definition InvokeTask_Fingerprint ::
  "bytes \<Rightarrow> 'a \<Rightarrow> 'w Writer \<Rightarrow> ('w, 'a) ProtoMarshaler \<Rightarrow> 'w \<Rightarrow> error option \<times> 'w" where
  "InvokeTask_Fingerprint key argument Write e w =
     (case Write w key of
        (Some err, w1) \<Rightarrow> (Some (CouldntWriteKey err), w1)
      | (None, w1) \<Rightarrow>
          (case e Write w1 argument of
             (Some err, w2) \<Rightarrow> (Some (CouldntWriteArgument err), w2)
           | (None, w2) \<Rightarrow> (None, w2)))"

definition DeleteTask_Fingerprint ::
  "bytes \<Rightarrow> 'w Writer \<Rightarrow> ('w, 'a) ProtoMarshaler \<Rightarrow> 'w \<Rightarrow> error option \<times> 'w" where
  "DeleteTask_Fingerprint key Write e w =
     (case Write w key of
        (Some err, w1) \<Rightarrow> (Some (CouldntWriteKey err), w1)
      | (None, w1) \<Rightarrow> (None, w1))"

text \<open>The method of the interface, by the type of the task.\<close>

fun Fingerprint ::
  "'a ClientTask \<Rightarrow> 'w Writer \<Rightarrow> ('w, 'a) ProtoMarshaler \<Rightarrow> 'w \<Rightarrow> error option \<times> 'w" where
  "Fingerprint (SpawnTask contractID argument) Write e w =
     SpawnTask_Fingerprint contractID argument Write e w"
| "Fingerprint (InvokeTask key argument) Write e w =
     InvokeTask_Fingerprint key argument Write e w"
| "Fingerprint (DeleteTask key) Write e w = DeleteTask_Fingerprint key Write e w"

subsection \<open>Writers and encoders\<close>

text \<open>
  The fake hash of the repository's test doubles: \<^verbatim>\<open>Write\<close> records its argument when a
  call log is attached, succeeds while \<^verbatim>\<open>delay\<close> is positive (counting it down) and
  returns the configured error afterwards. It keeps no bytes. The fields \<^verbatim>\<open>delay\<close>,
  \<^verbatim>\<open>err\<close> and \<^verbatim>\<open>Call\<close> carry the prefix \<open>hash_\<close>.
\<close>

record Hash =
  hash_delay :: int
  hash_err :: "error option"
  hash_Call :: "bytes list option"

definition Hash_Write :: "Hash Writer" where
  "Hash_Write h inp =
     (let h1 = (case hash_Call h of None \<Rightarrow> h | Some calls \<Rightarrow> h\<lparr>hash_Call := Some (calls @ [inp])\<rparr>)
      in if hash_delay h1 > 0 then (None, h1\<lparr>hash_delay := hash_delay h1 - 1\<rparr>) else (hash_err h1, h1))"

definition NewBadHash :: Hash where
  "NewBadHash = \<lparr>hash_delay = 0, hash_err = Some (Failure ''fake error''), hash_Call = None\<rparr>"

definition NewBadHashWithDelay :: "int \<Rightarrow> Hash" where
  "NewBadHashWithDelay d = \<lparr>hash_delay = d, hash_err = Some (Failure ''fake error''), hash_Call = None\<rparr>"

text \<open>The fake encoder whose stable serialization always fails.\<close>

definition BadMarshalStableEncoder_MarshalStable :: "('w, 'a) ProtoMarshaler" where
  "BadMarshalStableEncoder_MarshalStable Write w m = (Some (Failure ''fake error''), w)"

text \<open>
  Modelled from the spec: the writer collaborator that the fingerprint is read from, which
  is not part of the file (a buffer or a running hash). It accepts every write and
  appends the bytes to what it holds.
\<close>

definition Buffer_Write :: "bytes Writer" where
  "Buffer_Write buf p = (None, buf @ p)"

text \<open>
  Modelled from the spec: the stable serializer \<^verbatim>\<open>encoding.ProtoEncoder.MarshalStable\<close>,
  which is not part of the file. The spec gives it as \<^verbatim>\<open>serialize_stable(value, writer)\<close>,
  deterministic for equal values: a function \<open>ser\<close> from the message to its bytes, or to
  an error, whose bytes are handed to the writer.
\<close>

definition ProtoEncoder_MarshalStable :: "('a \<Rightarrow> error + bytes) \<Rightarrow> ('w, 'a) ProtoMarshaler" where
  "ProtoEncoder_MarshalStable ser Write w m =
     (case ser m of Inl err \<Rightarrow> (Some err, w) | Inr bs \<Rightarrow> Write w bs)"

text \<open>The bytes a task leaves in an empty buffer, with the result of the call.\<close>

definition fingerprint_of :: "('a \<Rightarrow> error + bytes) \<Rightarrow> 'a ClientTask \<Rightarrow> error option \<times> bytes" where
  "fingerprint_of ser task = Fingerprint task Buffer_Write (ProtoEncoder_MarshalStable ser) []"

section \<open>The server task\<close>

text \<open>
  An instance, as \<^verbatim>\<open>consumeSpawn\<close> builds it. The value is an opaque message of type
  \<open>'v\<close>.
\<close>

record 'v Instance =
  Key :: bytes
  AccessControl :: bytes
  ContractID :: string
  Deleted :: bool
  Value :: 'v

text \<open>
  The code handles instances through pointers (\<^verbatim>\<open>*Instance\<close>): \<^verbatim>\<open>ctx.Read\<close> returns one,
  \<^verbatim>\<open>consumeInvoke\<close> and \<^verbatim>\<open>consumeDelete\<close> assign a field through it, \<^verbatim>\<open>consumeSpawn\<close>
  makes one with \<^verbatim>\<open>&Instance{...}\<close>, and \<^verbatim>\<open>page.Write\<close> gets one. A pointer is an address
  in a heap of instances, so that an assignment through a pointer is seen by whoever
  holds the same pointer. \<open>next_free\<close> is the address of the next instance made. A read
  that returns no error returns the address of an instance (never \<^verbatim>\<open>nil\<close>).
\<close>

type_synonym addr = nat

record 'v heap =
  cells :: "addr \<Rightarrow> 'v Instance"
  next_free :: addr

definition heap_load :: "'v heap \<Rightarrow> addr \<Rightarrow> 'v Instance" where
  "heap_load h a = cells h a"

definition heap_store :: "'v heap \<Rightarrow> addr \<Rightarrow> 'v Instance \<Rightarrow> 'v heap" where
  "heap_store h a i = h\<lparr>cells := (cells h)(a := i)\<rparr>"

definition heap_new :: "'v heap \<Rightarrow> 'v Instance \<Rightarrow> addr \<times> 'v heap" where
  "heap_new h i =
     (next_free h, \<lparr>cells = (cells h)(next_free h := i), next_free = Suc (next_free h)\<rparr>)"

text \<open>
  An access control is used through \<^verbatim>\<open>Match(rule, identity)\<close> alone, which returns an
  error when the identity is refused. Identities are opaque values of type \<open>'id\<close>.
\<close>

type_synonym 'id arc_AccessControl = "string \<Rightarrow> 'id \<Rightarrow> error option"

text \<open>
  The context of the transaction gives the identifier derived for the transaction and the
  identity of its sender; \<^verbatim>\<open>taskContext\<close> embeds it and adds the page (type \<open>'p\<close>). The
  page changes in \<^verbatim>\<open>page.Write\<close> alone, the last call of \<^verbatim>\<open>Consume\<close>, so the context
  holds the page as it is during the whole transition; the instances that the page points
  to are in the heap.
\<close>

record 'id basic_Context =
  GetID :: bytes
  GetIdentity :: 'id

record ('id, 'p) taskContext = "'id basic_Context" +
  page :: 'p

text \<open>
  Code of the repository that the file calls and that is not part of it is a parameter:
  \<^verbatim>\<open>arc.Compile\<close>, the methods \<^verbatim>\<open>Read\<close> and \<^verbatim>\<open>GetArc\<close> of \<^verbatim>\<open>taskContext\<close>, which go to
  the page of the context, and \<^verbatim>\<open>Write\<close> of the writable page, which returns the page
  afterwards. \<^verbatim>\<open>Read\<close> returns a pointer, and the heap afterwards: a page may hand out
  the pointer it stores, or the address of a copy it makes. \<^verbatim>\<open>Write\<close> gets the key and
  the pointer.
\<close>

record ('id, 'p, 'v) collaborators =
  arc_Compile :: "string \<Rightarrow> string \<Rightarrow> string"
  ctx_Read :: "'p \<Rightarrow> 'v heap \<Rightarrow> bytes \<Rightarrow> (error + addr) \<times> 'v heap"
  ctx_GetArc :: "'p \<Rightarrow> 'v heap \<Rightarrow> bytes \<Rightarrow> error + 'id arc_AccessControl"
  page_Write :: "'p \<Rightarrow> 'v heap \<Rightarrow> bytes \<Rightarrow> addr \<Rightarrow> error option \<times> 'p"

text \<open>
  A contract has the two entry points \<^verbatim>\<open>Spawn(SpawnContext)\<close> and
  \<^verbatim>\<open>Invoke(InvokeContext)\<close>. A spawn context is the context with the fields of the spawn
  task, an invoke context the context with the fields of the invoke task; the entry points
  take them one by one, with the heap they may read. A contract returns its result and
  changes neither the page nor the heap.
\<close>

record ('id, 'p, 'a, 'v) Contract =
  Spawn :: "('id, 'p) taskContext \<Rightarrow> 'v heap \<Rightarrow> string \<Rightarrow> 'a \<Rightarrow> error + ('v \<times> bytes)"
  Invoke :: "('id, 'p) taskContext \<Rightarrow> 'v heap \<Rightarrow> bytes \<Rightarrow> 'a \<Rightarrow> error + 'v"

text \<open>
  The client task of a server task is a value of the interface \<^verbatim>\<open>basic.ClientTask\<close>: one of
  the three tasks of the file, or a value of another type, given by the name of its type.
  The encoder of the server task is not used by \<^verbatim>\<open>Consume\<close> and is left out.
\<close>

datatype 'a basic_ClientTask = ContractTask "'a ClientTask" | ForeignTask string

record ('id, 'p, 'a, 'v) serverTask =
  ClientTask :: "'a basic_ClientTask"
  contracts :: "string \<rightharpoonup> ('id, 'p, 'a, 'v) Contract"

text \<open>
  Every call that the server task makes on a collaborator is recorded, in order, the way
  \<^verbatim>\<open>fake.Call\<close> records calls in the repository's test doubles: reads of the page, lookups
  of an access control, matches of a rule, the entry points of a contract (by the
  identifier it is registered under) and writes to the page (by key and pointer).
\<close>

datatype 'id call =
    CallRead bytes
  | CallGetArc bytes
  | CallMatch string 'id
  | CallSpawn string
  | CallInvoke string
  | CallWrite bytes addr

fun is_Write :: "'id call \<Rightarrow> bool" where
  "is_Write (CallWrite k a) = True"
| "is_Write c = False"

fun is_contract_call :: "'id call \<Rightarrow> bool" where
  "is_contract_call (CallSpawn c) = True"
| "is_contract_call (CallInvoke c) = True"
| "is_contract_call c = False"

fun is_access_call :: "'id call \<Rightarrow> bool" where
  "is_access_call (CallGetArc k) = True"
| "is_access_call (CallMatch r i) = True"
| "is_access_call c = False"

definition hasAccess ::
  "('id, 'p, 'v) collaborators \<Rightarrow> ('id, 'p) taskContext \<Rightarrow> 'v heap \<Rightarrow> bytes \<Rightarrow> string
     \<Rightarrow> error option \<times> 'id call list" where
  "hasAccess d ctx h key rule =
     (case ctx_GetArc d (page ctx) h key of
        Inl err \<Rightarrow> (Some (CouldntReadAccess err), [CallGetArc key])
      | Inr access \<Rightarrow>
          (case access rule (GetIdentity ctx) of
             Some err \<Rightarrow>
               (Some (Refused rule err), [CallGetArc key, CallMatch rule (GetIdentity ctx)])
           | None \<Rightarrow> (None, [CallGetArc key, CallMatch rule (GetIdentity ctx)])))"

text \<open>
  The three transitions return the pointer to the instance or the error, the heap
  afterwards, and the calls made.
\<close>

definition consumeSpawn ::
  "('id, 'p, 'v) collaborators \<Rightarrow> ('id, 'p, 'a, 'v) serverTask \<Rightarrow> ('id, 'p) taskContext
     \<Rightarrow> 'v heap \<Rightarrow> string \<Rightarrow> 'a \<Rightarrow> (error + addr) \<times> 'v heap \<times> 'id call list" where
  "consumeSpawn d act ctx h contractID argument =
     (case ctx_Read d (page ctx) h (GetID ctx) of
        (Inr _, h1) \<Rightarrow> (Inl InstanceAlreadyExists, h1, [CallRead (GetID ctx)])
      | (Inl _, h1) \<Rightarrow>
          (case contracts act contractID of
             None \<Rightarrow> (Inl (ContractNotFound contractID), h1, [CallRead (GetID ctx)])
           | Some exec \<Rightarrow>
               (case Spawn exec ctx h1 contractID argument of
                  Inl err \<Rightarrow>
                    (Inl (CouldntExecuteSpawn err), h1,
                     [CallRead (GetID ctx), CallSpawn contractID])
                | Inr (val, arcid) \<Rightarrow>
                    (case hasAccess d ctx h1 arcid (arc_Compile d contractID ''spawn'') of
                       (Some err, cs) \<Rightarrow>
                         (Inl (NoAccess err), h1,
                          [CallRead (GetID ctx), CallSpawn contractID] @ cs)
                     | (None, cs) \<Rightarrow>
                         (case heap_new h1
                                 \<lparr>Key = GetID ctx, AccessControl = arcid,
                                  ContractID = contractID, Deleted = False, Value = val\<rparr> of
                            (instance, h2) \<Rightarrow>
                              (Inr instance, h2,
                               [CallRead (GetID ctx), CallSpawn contractID] @ cs))))))"

definition consumeInvoke ::
  "('id, 'p, 'v) collaborators \<Rightarrow> ('id, 'p, 'a, 'v) serverTask \<Rightarrow> ('id, 'p) taskContext
     \<Rightarrow> 'v heap \<Rightarrow> bytes \<Rightarrow> 'a \<Rightarrow> (error + addr) \<times> 'v heap \<times> 'id call list" where
  "consumeInvoke d act ctx h key argument =
     (case ctx_Read d (page ctx) h key of
        (Inl err, h1) \<Rightarrow> (Inl (CouldntReadInstance err), h1, [CallRead key])
      | (Inr instance, h1) \<Rightarrow>
          (case hasAccess d ctx h1 (AccessControl (heap_load h1 instance))
                  (arc_Compile d (ContractID (heap_load h1 instance)) ''invoke'') of
             (Some err, cs) \<Rightarrow> (Inl (NoAccess err), h1, [CallRead key] @ cs)
           | (None, cs) \<Rightarrow>
               (case contracts act (ContractID (heap_load h1 instance)) of
                  None \<Rightarrow>
                    (Inl (ContractNotFound (ContractID (heap_load h1 instance))), h1,
                     [CallRead key] @ cs)
                | Some exec \<Rightarrow>
                    (case Invoke exec ctx h1 key argument of
                       Inl err \<Rightarrow>
                         (Inl (CouldntInvoke err), h1,
                          [CallRead key] @ cs
                            @ [CallInvoke (ContractID (heap_load h1 instance))])
                     | Inr val \<Rightarrow>
                         (Inr instance,
                          heap_store h1 instance ((heap_load h1 instance)\<lparr>Value := val\<rparr>),
                          [CallRead key] @ cs
                            @ [CallInvoke (ContractID (heap_load h1 instance))])))))"

definition consumeDelete ::
  "('id, 'p, 'v) collaborators \<Rightarrow> ('id, 'p, 'a, 'v) serverTask \<Rightarrow> ('id, 'p) taskContext
     \<Rightarrow> 'v heap \<Rightarrow> bytes \<Rightarrow> (error + addr) \<times> 'v heap \<times> 'id call list" where
  "consumeDelete d act ctx h key =
     (case ctx_Read d (page ctx) h key of
        (Inl err, h1) \<Rightarrow> (Inl (CouldntReadInstance err), h1, [CallRead key])
      | (Inr instance, h1) \<Rightarrow>
          (Inr instance,
           heap_store h1 instance ((heap_load h1 instance)\<lparr>Deleted := True\<rparr>),
           [CallRead key]))"

text \<open>The switch of \<^verbatim>\<open>Consume\<close> over the three tasks of the file.\<close>

fun consumeTask ::
  "('id, 'p, 'v) collaborators \<Rightarrow> ('id, 'p, 'a, 'v) serverTask \<Rightarrow> ('id, 'p) taskContext
     \<Rightarrow> 'v heap \<Rightarrow> 'a ClientTask \<Rightarrow> (error + addr) \<times> 'v heap \<times> 'id call list" where
  "consumeTask d act txCtx h (SpawnTask contractID argument) =
     consumeSpawn d act txCtx h contractID argument"
| "consumeTask d act txCtx h (InvokeTask key argument) =
     consumeInvoke d act txCtx h key argument"
| "consumeTask d act txCtx h (DeleteTask key) = consumeDelete d act txCtx h key"

text \<open>
  \<^verbatim>\<open>Consume\<close> returns its error, the page and the heap afterwards, and the calls it made.
  A value of another type is refused before any call; an error of the task is returned
  as it is; an instance is written under its own key.
\<close>

definition Consume ::
  "('id, 'p, 'v) collaborators \<Rightarrow> ('id, 'p, 'a, 'v) serverTask \<Rightarrow> 'id basic_Context \<Rightarrow> 'p
     \<Rightarrow> 'v heap \<Rightarrow> error option \<times> 'p \<times> 'v heap \<times> 'id call list" where
  "Consume d act ctx pg h =
     (let txCtx = \<lparr>GetID = GetID ctx, GetIdentity = GetIdentity ctx, page = pg\<rparr> in
      case ClientTask act of
        ForeignTask ty \<Rightarrow> (Some (InvalidTaskType ty), pg, h, [])
      | ContractTask task \<Rightarrow>
          (case consumeTask d act txCtx h task of
             (Inl err, h1, cs) \<Rightarrow> (Some err, pg, h1, cs)
           | (Inr instance, h1, cs) \<Rightarrow>
               (case page_Write d pg h1 (Key (heap_load h1 instance)) instance of
                  (Some err, pg') \<Rightarrow>
                    (Some (CouldntWriteInstance err), pg', h1,
                     cs @ [CallWrite (Key (heap_load h1 instance)) instance])
                | (None, pg') \<Rightarrow>
                    (None, pg', h1,
                     cs @ [CallWrite (Key (heap_load h1 instance)) instance]))))"

text \<open>
  What a reader of the page sees under a key: the instance that the pointer of a read
  leads to, or the error of the read. The key that the transition of a task reads: the
  identifier derived for the transaction for a spawn, the key of the task otherwise.
\<close>

definition observe ::
  "('id, 'p, 'v) collaborators \<Rightarrow> 'p \<Rightarrow> 'v heap \<Rightarrow> bytes \<Rightarrow> error + 'v Instance" where
  "observe d pg h key =
     (case ctx_Read d pg h key of
        (Inl err, h1) \<Rightarrow> Inl err
      | (Inr a, h1) \<Rightarrow> Inr (heap_load h1 a))"

fun read_key :: "bytes \<Rightarrow> 'a ClientTask \<Rightarrow> bytes" where
  "read_key derived (SpawnTask contractID argument) = derived"
| "read_key derived (InvokeTask key argument) = key"
| "read_key derived (DeleteTask key) = key"

text \<open>
  Two properties of a page. A read changes nothing that a reader sees: after the read of
  a key, every key shows what it showed before. The page reads back what was written to
  it: after a write that succeeded, the read of its key succeeds and leads to the instance
  written.
\<close>

definition quiet_read :: "('id, 'p, 'v) collaborators \<Rightarrow> bool" where
  "quiet_read d =
     (\<forall>pg h key key'. observe d pg (snd (ctx_Read d pg h key)) key' = observe d pg h key')"

definition reads_back :: "('id, 'p, 'v) collaborators \<Rightarrow> bool" where
  "reads_back d =
     (\<forall>p h key a p'. page_Write d p h key a = (None, p') \<longrightarrow>
        observe d p' h key = Inr (heap_load h a))"

section \<open>A page in memory and the coin contract\<close>

text \<open>
  Modelled from the spec: the storage page, which is not part of the file. The spec gives
  it as \<^verbatim>\<open>read(key) -> Instance | NotFound\<close> and \<^verbatim>\<open>write(key, Instance) -> Result\<close>: a
  map from keys to the pointers written, where a read of an absent key fails, a read of a
  key hands out the pointer stored under it, and a write stores the pointer.
\<close>

type_synonym MemPage = "bytes \<rightharpoonup> addr"

definition MemPage_Read :: "MemPage \<Rightarrow> 'v heap \<Rightarrow> bytes \<Rightarrow> (error + addr) \<times> 'v heap" where
  "MemPage_Read pg h key =
     (case pg key of None \<Rightarrow> (Inl (Failure ''not found''), h) | Some a \<Rightarrow> (Inr a, h))"

definition MemPage_Write :: "MemPage \<Rightarrow> 'v heap \<Rightarrow> bytes \<Rightarrow> addr \<Rightarrow> error option \<times> MemPage" where
  "MemPage_Write pg h key a = (None, pg(key \<mapsto> a))"

text \<open>
  Modelled from the spec: the access-control resolver and policy of the example scenario,
  which are not part of the file. The identifier \<open>A0\<close> names a policy that allows the
  identity \<open>alice\<close> every rule and refuses every other identity; no other identifier
  names a policy.
\<close>

definition A0 :: bytes where
  "A0 = [0xA0]"

definition alice_only :: "string arc_AccessControl" where
  "alice_only rule ident = (if ident = ''alice'' then None else Some (Failure ''unauthorized''))"

definition MemPage_GetArc :: "MemPage \<Rightarrow> 'v heap \<Rightarrow> bytes \<Rightarrow> error + string arc_AccessControl" where
  "MemPage_GetArc pg h key = (if key = A0 then Inr alice_only else Inl (Failure ''not found''))"

text \<open>
  Modelled from the spec: the rule of a contract and an action, \<^verbatim>\<open>arc.Compile\<close>, which is
  not part of the file: a deterministic string built from the two.
\<close>

definition Compile :: "string \<Rightarrow> string \<Rightarrow> string" where
  "Compile contractID action = contractID @ '':'' @ action"

definition mem :: "(string, MemPage, 'v) collaborators" where
  "mem = \<lparr>arc_Compile = Compile, ctx_Read = MemPage_Read, ctx_GetArc = MemPage_GetArc,
          page_Write = MemPage_Write\<rparr>"

text \<open>A page whose every read fails for a reason of the storage, and takes writes.\<close>

definition broken :: "(string, MemPage, 'v) collaborators" where
  "broken = \<lparr>arc_Compile = Compile,
             ctx_Read = (\<lambda>pg h key. (Inl (Failure ''storage failure''), h)),
             ctx_GetArc = MemPage_GetArc, page_Write = MemPage_Write\<rparr>"

text \<open>A page that reads as the page in memory and refuses every write.\<close>

definition full :: "(string, MemPage, 'v) collaborators" where
  "full = \<lparr>arc_Compile = Compile, ctx_Read = MemPage_Read, ctx_GetArc = MemPage_GetArc,
           page_Write = (\<lambda>pg h key a. (Some (Failure ''disk full''), pg))\<rparr>"

text \<open>
  Modelled from the spec: the contract \<open>coin\<close> of the example scenario. Its spawn ignores
  the argument and returns the balance 100 under \<open>A0\<close>; its invoke reads the instance
  and adds the argument to the balance, and fails on a balance that would fall below zero.
\<close>

definition coin :: "(string, MemPage, int, int) Contract" where
  "coin = \<lparr>Spawn = (\<lambda>ctx h contractID argument. Inr (100, A0)),
           Invoke = (\<lambda>ctx h key argument.
             case MemPage_Read (page ctx) h key of
               (Inl err, h1) \<Rightarrow> Inl err
             | (Inr a, h1) \<Rightarrow>
                 if Value (heap_load h1 a) + argument < 0
                 then Inl (Failure ''insufficient balance'')
                 else Inr (Value (heap_load h1 a) + argument))\<rparr>"

definition registry :: "string \<rightharpoonup> (string, MemPage, int, int) Contract" where
  "registry = [''coin'' \<mapsto> coin]"

definition k1 :: bytes where
  "k1 = [0x6B, 0x31]"

definition alice :: "string basic_Context" where
  "alice = \<lparr>GetID = k1, GetIdentity = ''alice''\<rparr>"

definition bob :: "string basic_Context" where
  "bob = \<lparr>GetID = k1, GetIdentity = ''bob''\<rparr>"

definition coinTask :: "int ClientTask \<Rightarrow> (string, MemPage, int, int) serverTask" where
  "coinTask t = \<lparr>ClientTask = ContractTask t, contracts = registry\<rparr>"

definition coin100 :: "int Instance" where
  "coin100 = \<lparr>Key = k1, AccessControl = A0, ContractID = ''coin'', Deleted = False, Value = 100\<rparr>"

text \<open>
  The heap with no instance made yet (every cell holds a blank instance), and the heap
  after the spawn of the example: the instance \<open>coin100\<close> at address 0, which the page
  stores under \<open>k1\<close>.
\<close>

definition blank :: "int Instance" where
  "blank = \<lparr>Key = [], AccessControl = [], ContractID = [], Deleted = False, Value = 0\<rparr>"

definition heap0 :: "int heap" where
  "heap0 = \<lparr>cells = (\<lambda>a. blank), next_free = 0\<rparr>"

definition heap1 :: "int heap" where
  "heap1 = \<lparr>cells = (\<lambda>a. blank)(0 := coin100), next_free = 1\<rparr>"

definition page1 :: MemPage where
  "page1 = [k1 \<mapsto> 0]"

text \<open>
  A serializer of the integer arguments of the example: the low byte of a number that is
  not negative. It is a function, so deterministic, and it gives the same byte for 1
  and 257.
\<close>

definition low_byte :: "int \<Rightarrow> error + bytes" where
  "low_byte n = (if n < 0 then Inl (Failure ''negative'') else Inr [of_int n])"

text \<open>
  A serializer of variable length: no byte for 0, one byte below 256, two bytes above.
\<close>

definition compact :: "int \<Rightarrow> error + bytes" where
  "compact n =
     (if n < 0 then Inl (Failure ''negative'')
      else if n = 0 then Inr []
      else if n < 256 then Inr [of_int n]
      else Inr [of_int (n div 256), of_int n])"

section \<open>Facts about fingerprints\<close>

lemma unat_of_char_byte: "unat (of_char c :: byte) = of_char c"
proof -
  have "(of_char c :: byte) = of_nat (of_char c)"
    by (simp add: of_nat_of_char)
  moreover have "(of_char c :: nat) < 256"
    by simp
  ultimately show ?thesis
    by (simp add: unat_of_nat)
qed

lemma of_char_byte_inject: "(of_char c :: byte) = of_char d \<Longrightarrow> c = d"
proof -
  assume "(of_char c :: byte) = of_char d"
  then have "unat (of_char c :: byte) = unat (of_char d :: byte)"
    by simp
  then have "(of_char c :: nat) = of_char d"
    by (simp only: unat_of_char_byte)
  then show ?thesis
    by simp
qed

lemma bytes_of_string_inject: "bytes_of_string s = bytes_of_string t \<Longrightarrow> s = t"
  unfolding bytes_of_string_def
proof (induction s arbitrary: t)
  case Nil
  then show ?case by simp
next
  case (Cons c s)
  then obtain d t' where t: "t = d # t'"
    by (cases t) auto
  with Cons.prems have "(of_char c :: byte) = of_char d" and "map of_char s = (map of_char t' :: bytes)"
    by simp_all
  with Cons.IH t show ?case
    by (simp add: of_char_byte_inject)
qed

lemma Buffer_SpawnTask_Fingerprint:
  "SpawnTask_Fingerprint cid arg Buffer_Write (ProtoEncoder_MarshalStable ser) buf =
     (case ser arg of
        Inl err \<Rightarrow> (Some (CouldntWriteArgument err), buf @ bytes_of_string cid)
      | Inr bs \<Rightarrow> (None, buf @ bytes_of_string cid @ bs))"
  by (simp add: SpawnTask_Fingerprint_def Buffer_Write_def ProtoEncoder_MarshalStable_def
      split: sum.splits)

lemma Buffer_InvokeTask_Fingerprint:
  "InvokeTask_Fingerprint key arg Buffer_Write (ProtoEncoder_MarshalStable ser) buf =
     (case ser arg of
        Inl err \<Rightarrow> (Some (CouldntWriteArgument err), buf @ key)
      | Inr bs \<Rightarrow> (None, buf @ key @ bs))"
  by (simp add: InvokeTask_Fingerprint_def Buffer_Write_def ProtoEncoder_MarshalStable_def
      split: sum.splits)

lemma Buffer_DeleteTask_Fingerprint:
  "DeleteTask_Fingerprint key Buffer_Write e buf = (None, buf @ key)"
  by (simp add: DeleteTask_Fingerprint_def Buffer_Write_def)

lemma SpawnTask_Fingerprint_error:
  "fst (SpawnTask_Fingerprint cid arg W e w) =
     (case W w (bytes_of_string cid) of
        (Some err, w1) \<Rightarrow> Some (CouldntWriteContract err)
      | (None, w1) \<Rightarrow> map_option CouldntWriteArgument (fst (e W w1 arg)))"
  by (simp add: SpawnTask_Fingerprint_def split: prod.splits option.splits)

lemma InvokeTask_Fingerprint_error:
  "fst (InvokeTask_Fingerprint key arg W e w) =
     (case W w key of
        (Some err, w1) \<Rightarrow> Some (CouldntWriteKey err)
      | (None, w1) \<Rightarrow> map_option CouldntWriteArgument (fst (e W w1 arg)))"
  by (simp add: InvokeTask_Fingerprint_def split: prod.splits option.splits)

lemma DeleteTask_Fingerprint_error:
  "fst (DeleteTask_Fingerprint key W e w) = map_option CouldntWriteKey (fst (W w key))"
  by (simp add: DeleteTask_Fingerprint_def split: prod.splits option.splits)

lemma low_byte_5: "low_byte 5 = Inr [5]"
  by (simp add: low_byte_def)

lemma bytes_of_string_coin: "bytes_of_string ''coin'' = [0x63, 0x6F, 0x69, 0x6E]"
  by (simp add: bytes_of_string_def)

lemma Hash_Write_delay_1: "Hash_Write (NewBadHashWithDelay 1) p = (None, NewBadHashWithDelay 0)"
  by (simp add: Hash_Write_def NewBadHashWithDelay_def)

lemma Hash_Write_bad: "Hash_Write NewBadHash p = (Some (Failure ''fake error''), NewBadHash)"
  by (simp add: Hash_Write_def NewBadHash_def)

text \<open>
  Claim C7. Into a writer that accepts every write, a spawn task writes the bytes of its
  contract identifier and then the stable serialization of its argument, an invoke task
  its key and then the stable serialization of its argument, a delete task its key only
  (where the serializer fails, the bytes written before it stay and the call returns the
  error). With any writer and any encoder, the call returns an error as soon as the
  writer fails on the first field, and otherwise whenever the encoder fails; a delete
  task returns an error exactly when the writer fails.
\<close>

theorem Fingerprint_writes_fields_in_order:
  "SpawnTask_Fingerprint cid arg Buffer_Write (ProtoEncoder_MarshalStable ser) buf =
     (case ser arg of
        Inr bs \<Rightarrow> (None, buf @ bytes_of_string cid @ bs)
      | Inl err \<Rightarrow> (Some (CouldntWriteArgument err), buf @ bytes_of_string cid))
   \<and> InvokeTask_Fingerprint key arg Buffer_Write (ProtoEncoder_MarshalStable ser) buf =
     (case ser arg of
        Inr bs \<Rightarrow> (None, buf @ key @ bs)
      | Inl err \<Rightarrow> (Some (CouldntWriteArgument err), buf @ key))
   \<and> DeleteTask_Fingerprint key Buffer_Write (ProtoEncoder_MarshalStable ser) buf
     = (None, buf @ key)
   \<and> fst (SpawnTask_Fingerprint cid arg W e w) =
     (case W w (bytes_of_string cid) of
        (Some err, w1) \<Rightarrow> Some (CouldntWriteContract err)
      | (None, w1) \<Rightarrow> map_option CouldntWriteArgument (fst (e W w1 arg)))
   \<and> fst (InvokeTask_Fingerprint key arg W e w) =
     (case W w key of
        (Some err, w1) \<Rightarrow> Some (CouldntWriteKey err)
      | (None, w1) \<Rightarrow> map_option CouldntWriteArgument (fst (e W w1 arg)))
   \<and> fst (DeleteTask_Fingerprint key W e w) = map_option CouldntWriteKey (fst (W w key))"
proof (intro conjI)
  show "SpawnTask_Fingerprint cid arg Buffer_Write (ProtoEncoder_MarshalStable ser) buf =
     (case ser arg of
        Inr bs \<Rightarrow> (None, buf @ bytes_of_string cid @ bs)
      | Inl err \<Rightarrow> (Some (CouldntWriteArgument err), buf @ bytes_of_string cid))"
    by (simp add: Buffer_SpawnTask_Fingerprint split: sum.splits)
  show "InvokeTask_Fingerprint key arg Buffer_Write (ProtoEncoder_MarshalStable ser) buf =
     (case ser arg of
        Inr bs \<Rightarrow> (None, buf @ key @ bs)
      | Inl err \<Rightarrow> (Some (CouldntWriteArgument err), buf @ key))"
    by (simp add: Buffer_InvokeTask_Fingerprint split: sum.splits)
qed (rule Buffer_DeleteTask_Fingerprint SpawnTask_Fingerprint_error
    InvokeTask_Fingerprint_error DeleteTask_Fingerprint_error)+

text \<open>
  The tasks of the example in a buffer, and in the fake hash that accepts one write, with
  the fake encoder that always fails.
\<close>

theorem Fingerprint_writes_fields_in_order_witness:
  "SpawnTask_Fingerprint ''coin'' 5 Buffer_Write (ProtoEncoder_MarshalStable low_byte) []
     = (None, [0x63, 0x6F, 0x69, 0x6E, 5])
   \<and> InvokeTask_Fingerprint k1 5 Buffer_Write (ProtoEncoder_MarshalStable low_byte) []
     = (None, [0x6B, 0x31, 5])
   \<and> fst (SpawnTask_Fingerprint ''coin'' (5::int) Hash_Write BadMarshalStableEncoder_MarshalStable
        (NewBadHashWithDelay 1)) = Some (CouldntWriteArgument (Failure ''fake error''))
   \<and> fst (InvokeTask_Fingerprint k1 (5::int) Hash_Write BadMarshalStableEncoder_MarshalStable
        (NewBadHashWithDelay 1)) = Some (CouldntWriteArgument (Failure ''fake error''))
   \<and> fst (DeleteTask_Fingerprint k1 Hash_Write
        (BadMarshalStableEncoder_MarshalStable :: (Hash, int) ProtoMarshaler)
        (NewBadHashWithDelay 1)) = None"
  using Fingerprint_writes_fields_in_order [where cid = "''coin''" and arg = 5
      and ser = low_byte and buf = "[]" and key = k1
      and e = BadMarshalStableEncoder_MarshalStable
      and W = Hash_Write and w = "NewBadHashWithDelay 1"]
  by (simp add: low_byte_5 bytes_of_string_coin Hash_Write_delay_1 k1_def
      BadMarshalStableEncoder_MarshalStable_def)

lemma fingerprint_of_Spawn:
  "fingerprint_of ser (SpawnTask cid arg) =
     (case ser arg of Inl err \<Rightarrow> (Some (CouldntWriteArgument err), bytes_of_string cid)
      | Inr bs \<Rightarrow> (None, bytes_of_string cid @ bs))"
  by (simp add: fingerprint_of_def Buffer_SpawnTask_Fingerprint split: sum.splits)

lemma fingerprint_of_Invoke:
  "fingerprint_of ser (InvokeTask key arg) =
     (case ser arg of Inl err \<Rightarrow> (Some (CouldntWriteArgument err), key)
      | Inr bs \<Rightarrow> (None, key @ bs))"
  by (simp add: fingerprint_of_def Buffer_InvokeTask_Fingerprint split: sum.splits)

lemma fingerprint_of_Delete: "fingerprint_of ser (DeleteTask key) = (None, key)"
  by (simp add: fingerprint_of_def Buffer_DeleteTask_Fingerprint)

lemma Fingerprint_Buffer:
  "Fingerprint t Buffer_Write (ProtoEncoder_MarshalStable ser) buf =
     (fst (fingerprint_of ser t), buf @ snd (fingerprint_of ser t))"
  by (cases t)
    (simp_all add: fingerprint_of_Spawn fingerprint_of_Invoke fingerprint_of_Delete
      Buffer_SpawnTask_Fingerprint Buffer_InvokeTask_Fingerprint Buffer_DeleteTask_Fingerprint
      split: sum.splits)

text \<open>
  Claim C8 fails where the field that differs is the argument: a serializer that is a
  function need not be injective. With the low-byte serializer, the invoke tasks on \<open>k1\<close>
  with the arguments 1 and 257 are different tasks with one fingerprint, and so are the
  spawn tasks of \<open>coin\<close> with these arguments.
\<close>

theorem Fingerprint_equal_for_distinct_arguments:
  "InvokeTask k1 1 \<noteq> InvokeTask k1 (257::int)
   \<and> fingerprint_of low_byte (InvokeTask k1 1) = fingerprint_of low_byte (InvokeTask k1 257)
   \<and> SpawnTask ''coin'' 1 \<noteq> SpawnTask ''coin'' (257::int)
   \<and> fingerprint_of low_byte (SpawnTask ''coin'' 1) = fingerprint_of low_byte (SpawnTask ''coin'' 257)"
  by (simp add: fingerprint_of_Invoke fingerprint_of_Spawn low_byte_def)

text \<open>
  Claim C8, amended. With a serializer that is a function of the argument, the result of
  a fingerprint and the bytes it appends to a buffer depend on the task alone, not on
  what the buffer holds: two calls on one task give the same bytes. Two invoke tasks, or
  two delete tasks, with different keys and the same argument have different
  fingerprints, and so have two spawn tasks with different contract identifiers and the
  same argument. Two invoke tasks (or two spawn tasks) that differ in the argument only,
  both serializable, have the same fingerprint exactly when the serializer gives the two
  arguments the same bytes.
\<close>

theorem Fingerprint_deterministic_distinct_keys:
  "Fingerprint t Buffer_Write (ProtoEncoder_MarshalStable ser) buf =
     (fst (fingerprint_of ser t), buf @ snd (fingerprint_of ser t))
   \<and> (key \<noteq> key' \<longrightarrow>
        snd (fingerprint_of ser (InvokeTask key arg)) \<noteq> snd (fingerprint_of ser (InvokeTask key' arg))
      \<and> snd (fingerprint_of ser (DeleteTask key)) \<noteq> snd (fingerprint_of ser (DeleteTask key')))
   \<and> (cid \<noteq> cid' \<longrightarrow>
        snd (fingerprint_of ser (SpawnTask cid arg)) \<noteq> snd (fingerprint_of ser (SpawnTask cid' arg)))
   \<and> (ser a = Inr bs \<and> ser a' = Inr bs' \<longrightarrow>
        (fingerprint_of ser (InvokeTask key a) = fingerprint_of ser (InvokeTask key a')) = (bs = bs')
      \<and> (fingerprint_of ser (SpawnTask cid a) = fingerprint_of ser (SpawnTask cid a')) = (bs = bs'))"
proof (intro conjI impI)
  show "Fingerprint t Buffer_Write (ProtoEncoder_MarshalStable ser) buf =
     (fst (fingerprint_of ser t), buf @ snd (fingerprint_of ser t))"
    by (rule Fingerprint_Buffer)
next
  assume "key \<noteq> key'"
  then show "snd (fingerprint_of ser (InvokeTask key arg)) \<noteq> snd (fingerprint_of ser (InvokeTask key' arg))"
    by (simp add: fingerprint_of_Invoke split: sum.splits)
next
  assume "key \<noteq> key'"
  then show "snd (fingerprint_of ser (DeleteTask key)) \<noteq> snd (fingerprint_of ser (DeleteTask key'))"
    by (simp add: fingerprint_of_Delete)
next
  assume "cid \<noteq> cid'"
  then have "bytes_of_string cid \<noteq> bytes_of_string cid'"
    using bytes_of_string_inject by blast
  then show "snd (fingerprint_of ser (SpawnTask cid arg)) \<noteq> snd (fingerprint_of ser (SpawnTask cid' arg))"
    by (simp add: fingerprint_of_Spawn split: sum.splits)
next
  assume "ser a = Inr bs \<and> ser a' = Inr bs'"
  then show "(fingerprint_of ser (InvokeTask key a) = fingerprint_of ser (InvokeTask key a')) = (bs = bs')"
    by (simp add: fingerprint_of_Invoke)
next
  assume "ser a = Inr bs \<and> ser a' = Inr bs'"
  then show "(fingerprint_of ser (SpawnTask cid a) = fingerprint_of ser (SpawnTask cid a')) = (bs = bs')"
    by (simp add: fingerprint_of_Spawn)
qed

theorem Fingerprint_deterministic_distinct_keys_witness:
  "Fingerprint (InvokeTask k1 5) Buffer_Write (ProtoEncoder_MarshalStable low_byte) [0, 1]
     = (None, [0, 1, 0x6B, 0x31, 5])
   \<and> snd (fingerprint_of low_byte (InvokeTask k1 5)) \<noteq> snd (fingerprint_of low_byte (InvokeTask A0 5))
   \<and> snd (fingerprint_of low_byte (DeleteTask k1)) \<noteq> snd (fingerprint_of low_byte (DeleteTask A0))
   \<and> snd (fingerprint_of low_byte (SpawnTask ''coin'' 5)) \<noteq> snd (fingerprint_of low_byte (SpawnTask ''coil'' 5))
   \<and> fingerprint_of low_byte (InvokeTask k1 1) = fingerprint_of low_byte (InvokeTask k1 257)
   \<and> fingerprint_of low_byte (InvokeTask k1 1) \<noteq> fingerprint_of low_byte (InvokeTask k1 2)"
proof -
  have h1: "k1 \<noteq> A0" by (simp add: k1_def A0_def)
  have h2: "''coin'' \<noteq> ''coil''" by simp
  have h3: "low_byte 1 = Inr [1] \<and> low_byte 257 = Inr [1]" by (simp add: low_byte_def)
  have h4: "low_byte 1 = Inr [1] \<and> low_byte 2 = Inr [2]" by (simp add: low_byte_def)
  show ?thesis
    using h1 h2 h3 h4
      Fingerprint_deterministic_distinct_keys [where t = "InvokeTask k1 5" and ser = low_byte and buf = "[0, 1]" and key = k1
        and key' = A0 and arg = 5 and cid = "''coin''" and cid' = "''coil''" and a = 1
        and a' = 257 and bs = "[1]" and bs' = "[1]"]
      Fingerprint_deterministic_distinct_keys [where t = "InvokeTask k1 5" and ser = low_byte and buf = "[0, 1]" and key = k1
        and key' = A0 and arg = 5 and cid = "''coin''" and cid' = "''coil''" and a = 1
        and a' = 2 and bs = "[1]" and bs' = "[2]"]
    by (simp add: fingerprint_of_Invoke low_byte_5 k1_def)
qed

lemma bytes_of_string_append: "bytes_of_string (s @ t) = bytes_of_string s @ bytes_of_string t"
  by (simp add: bytes_of_string_def)

text \<open>
  Claim C10. The encoding has no tag for the kind of task and no separator between the
  fields. In a buffer, the fingerprint of a spawn task is the bytes of its contract
  identifier followed at once by the bytes of its argument, that of an invoke task its
  key followed at once by the bytes of its argument, that of a delete task its key, and
  nothing else. So a spawn task and an invoke task whose contract identifier and key are
  the same bytes, with the same argument, are different tasks with one fingerprint (and
  leave the same bytes in any writer); bytes moved from the end of the first field to
  the front of the argument give the same fingerprint; and an invoke task whose argument
  has no bytes has the fingerprint of the delete task of its key.
\<close>

theorem Fingerprint_has_no_tag_or_separator:
  "bytes_of_string cid = key \<Longrightarrow>
     fingerprint_of ser (SpawnTask cid arg) =
       (case ser arg of
          Inr bs \<Rightarrow> (None, key @ bs)
        | Inl err \<Rightarrow> (Some (CouldntWriteArgument err), key))
   \<and> fingerprint_of ser (InvokeTask key arg) =
       (case ser arg of
          Inr bs \<Rightarrow> (None, key @ bs)
        | Inl err \<Rightarrow> (Some (CouldntWriteArgument err), key))
   \<and> fingerprint_of ser (DeleteTask key') = (None, key')
   \<and> Fingerprint (SpawnTask cid arg) Buffer_Write e buf
       = Fingerprint (InvokeTask key arg) Buffer_Write e buf
   \<and> snd (Fingerprint (SpawnTask cid arg) W e' w) = snd (Fingerprint (InvokeTask key arg) W e' w)
   \<and> SpawnTask cid arg \<noteq> InvokeTask key arg
   \<and> (ser arg = Inr bs \<and> ser arg' = Inr (x @ bs) \<longrightarrow>
        fingerprint_of ser (InvokeTask (key' @ x) arg) = fingerprint_of ser (InvokeTask key' arg'))
   \<and> (ser arg = Inr bs \<and> ser arg' = Inr (bytes_of_string s @ bs) \<longrightarrow>
        fingerprint_of ser (SpawnTask (cid @ s) arg) = fingerprint_of ser (SpawnTask cid arg'))
   \<and> (ser arg = Inr [] \<longrightarrow>
        fingerprint_of ser (InvokeTask key' arg) = fingerprint_of ser (DeleteTask key'))"
proof (intro conjI impI)
  assume k: "bytes_of_string cid = key"
  show "fingerprint_of ser (SpawnTask cid arg) =
       (case ser arg of
          Inr bs \<Rightarrow> (None, key @ bs)
        | Inl err \<Rightarrow> (Some (CouldntWriteArgument err), key))"
    using k by (simp add: fingerprint_of_Spawn split: sum.splits)
  show "fingerprint_of ser (InvokeTask key arg) =
       (case ser arg of
          Inr bs \<Rightarrow> (None, key @ bs)
        | Inl err \<Rightarrow> (Some (CouldntWriteArgument err), key))"
    by (simp add: fingerprint_of_Invoke split: sum.splits)
  show "fingerprint_of ser (DeleteTask key') = (None, key')"
    by (rule fingerprint_of_Delete)
  show "Fingerprint (SpawnTask cid arg) Buffer_Write e buf
       = Fingerprint (InvokeTask key arg) Buffer_Write e buf"
    using k by (simp add: SpawnTask_Fingerprint_def InvokeTask_Fingerprint_def Buffer_Write_def)
  show "snd (Fingerprint (SpawnTask cid arg) W e' w) = snd (Fingerprint (InvokeTask key arg) W e' w)"
    using k by (simp add: SpawnTask_Fingerprint_def InvokeTask_Fingerprint_def
        split: prod.splits option.splits)
  show "SpawnTask cid arg \<noteq> InvokeTask key arg"
    by simp
  show "fingerprint_of ser (InvokeTask (key' @ x) arg) = fingerprint_of ser (InvokeTask key' arg')"
    if "ser arg = Inr bs \<and> ser arg' = Inr (x @ bs)"
    using that by (simp add: fingerprint_of_Invoke)
  show "fingerprint_of ser (SpawnTask (cid @ s) arg) = fingerprint_of ser (SpawnTask cid arg')"
    if "ser arg = Inr bs \<and> ser arg' = Inr (bytes_of_string s @ bs)"
    using that by (simp add: fingerprint_of_Spawn bytes_of_string_append)
  show "fingerprint_of ser (InvokeTask key' arg) = fingerprint_of ser (DeleteTask key')"
    if "ser arg = Inr []"
    using that by (simp add: fingerprint_of_Invoke fingerprint_of_Delete)
qed

lemma compact_values:
  "compact 0 = Inr []" "compact 7 = Inr [7]" "compact 1287 = Inr [5, 7]"
  "compact 28167 = Inr [0x6E, 7]"
  by (simp_all add: compact_def)

theorem Fingerprint_has_no_tag_or_separator_witness:
  "fingerprint_of compact (SpawnTask ''k1'' 7) = (None, [0x6B, 0x31, 7])
   \<and> fingerprint_of compact (InvokeTask k1 7) = (None, [0x6B, 0x31, 7])
   \<and> SpawnTask ''k1'' 7 \<noteq> InvokeTask k1 (7::int)
   \<and> fingerprint_of compact (DeleteTask k1) = (None, k1)
   \<and> fingerprint_of compact (InvokeTask (k1 @ [5]) 7) = fingerprint_of compact (InvokeTask k1 1287)
   \<and> fingerprint_of compact (SpawnTask (''k1'' @ ''n'') 7) = fingerprint_of compact (SpawnTask ''k1'' 28167)
   \<and> fingerprint_of compact (InvokeTask k1 0) = fingerprint_of compact (DeleteTask k1)"
proof -
  have h: "bytes_of_string ''k1'' = k1"
    by (simp add: bytes_of_string_def k1_def)
  have n: "bytes_of_string ''n'' = [0x6E]"
    by (simp add: bytes_of_string_def)
  note inst = Fingerprint_has_no_tag_or_separator [OF h, where ser = compact and key' = k1 and buf = "[]"
        and e = BadMarshalStableEncoder_MarshalStable and W = Hash_Write
        and e' = BadMarshalStableEncoder_MarshalStable and w = NewBadHash]
  show ?thesis
    using inst [where arg = 7 and arg' = 1287 and bs = "[7]" and x = "[5]" and s = "''''"]
      inst [where arg = 7 and arg' = 28167 and bs = "[7]" and x = "[0x6E]" and s = "''n''"]
      inst [where arg = 0 and arg' = 0 and bs = "[]" and x = "[]" and s = "''''"]
    by (simp add: compact_values n k1_def)
qed

section \<open>Facts about the server task\<close>

lemmas example_defs = mem_def broken_def full_def MemPage_Read_def MemPage_Write_def
  MemPage_GetArc_def alice_only_def Compile_def coin_def registry_def k1_def A0_def alice_def
  bob_def coinTask_def coin100_def blank_def heap0_def heap1_def page1_def heap_load_def
  heap_store_def heap_new_def

lemmas consume_defs = Consume_def consumeSpawn_def consumeInvoke_def consumeDelete_def
  hasAccess_def

lemma heap_load_store: "heap_load (heap_store h a i) b = (if b = a then i else heap_load h b)"
  by (simp add: heap_load_def heap_store_def)

lemma heap_load_new: "heap_load (snd (heap_new h i)) (fst (heap_new h i)) = i"
  by (simp add: heap_load_def heap_new_def)

lemma hasAccess_cases:
  "hasAccess d c h key rule =
     (case ctx_GetArc d (page c) h key of
        Inl err \<Rightarrow> (Some (CouldntReadAccess err), [CallGetArc key])
      | Inr access \<Rightarrow>
          (map_option (Refused rule) (access rule (GetIdentity c)),
           [CallGetArc key, CallMatch rule (GetIdentity c)]))"
  by (simp add: hasAccess_def split: sum.splits option.splits)

lemma consumeSpawn_existing:
  "ctx_Read d (page c) h (GetID c) = (Inr a, h1) \<Longrightarrow>
   consumeSpawn d act c h cid arg = (Inl InstanceAlreadyExists, h1, [CallRead (GetID c)])"
  by (simp add: consumeSpawn_def)

lemma consumeSpawn_absent:
  "ctx_Read d (page c) h (GetID c) = (Inl e0, h1) \<Longrightarrow>
   consumeSpawn d act c h cid arg =
     (case contracts act cid of
        None \<Rightarrow> (Inl (ContractNotFound cid), h1, [CallRead (GetID c)])
      | Some exec \<Rightarrow>
          (case Spawn exec c h1 cid arg of
             Inl e \<Rightarrow> (Inl (CouldntExecuteSpawn e), h1, [CallRead (GetID c), CallSpawn cid])
           | Inr (v, arcid) \<Rightarrow>
               (case ctx_GetArc d (page c) h1 arcid of
                  Inl e \<Rightarrow>
                    (Inl (NoAccess (CouldntReadAccess e)), h1,
                     [CallRead (GetID c), CallSpawn cid, CallGetArc arcid])
                | Inr access \<Rightarrow>
                    (case access (arc_Compile d cid ''spawn'') (GetIdentity c) of
                       Some e \<Rightarrow>
                         (Inl (NoAccess (Refused (arc_Compile d cid ''spawn'') e)), h1,
                          [CallRead (GetID c), CallSpawn cid, CallGetArc arcid,
                           CallMatch (arc_Compile d cid ''spawn'') (GetIdentity c)])
                     | None \<Rightarrow>
                         (Inr (fst (heap_new h1
                                 \<lparr>Key = GetID c, AccessControl = arcid, ContractID = cid,
                                  Deleted = False, Value = v\<rparr>)),
                          snd (heap_new h1
                                 \<lparr>Key = GetID c, AccessControl = arcid, ContractID = cid,
                                  Deleted = False, Value = v\<rparr>),
                          [CallRead (GetID c), CallSpawn cid, CallGetArc arcid,
                           CallMatch (arc_Compile d cid ''spawn'') (GetIdentity c)])))))"
  by (auto simp: consumeSpawn_def hasAccess_cases split: sum.splits option.splits prod.splits)

lemma consumeInvoke_absent:
  "ctx_Read d (page c) h key = (Inl e, h1) \<Longrightarrow>
   consumeInvoke d act c h key arg = (Inl (CouldntReadInstance e), h1, [CallRead key])"
  by (simp add: consumeInvoke_def)

lemma consumeInvoke_existing:
  "ctx_Read d (page c) h key = (Inr a, h1) \<Longrightarrow>
   consumeInvoke d act c h key arg =
     (case ctx_GetArc d (page c) h1 (AccessControl (heap_load h1 a)) of
        Inl e \<Rightarrow>
          (Inl (NoAccess (CouldntReadAccess e)), h1,
           [CallRead key, CallGetArc (AccessControl (heap_load h1 a))])
      | Inr access \<Rightarrow>
          (case access (arc_Compile d (ContractID (heap_load h1 a)) ''invoke'') (GetIdentity c) of
             Some e \<Rightarrow>
               (Inl (NoAccess (Refused (arc_Compile d (ContractID (heap_load h1 a)) ''invoke'') e)),
                h1,
                [CallRead key, CallGetArc (AccessControl (heap_load h1 a)),
                 CallMatch (arc_Compile d (ContractID (heap_load h1 a)) ''invoke'')
                   (GetIdentity c)])
           | None \<Rightarrow>
               (case contracts act (ContractID (heap_load h1 a)) of
                  None \<Rightarrow>
                    (Inl (ContractNotFound (ContractID (heap_load h1 a))), h1,
                     [CallRead key, CallGetArc (AccessControl (heap_load h1 a)),
                      CallMatch (arc_Compile d (ContractID (heap_load h1 a)) ''invoke'')
                        (GetIdentity c)])
                | Some exec \<Rightarrow>
                    (case Invoke exec c h1 key arg of
                       Inl e \<Rightarrow>
                         (Inl (CouldntInvoke e), h1,
                          [CallRead key, CallGetArc (AccessControl (heap_load h1 a)),
                           CallMatch (arc_Compile d (ContractID (heap_load h1 a)) ''invoke'')
                             (GetIdentity c),
                           CallInvoke (ContractID (heap_load h1 a))])
                     | Inr v \<Rightarrow>
                         (Inr a, heap_store h1 a ((heap_load h1 a)\<lparr>Value := v\<rparr>),
                          [CallRead key, CallGetArc (AccessControl (heap_load h1 a)),
                           CallMatch (arc_Compile d (ContractID (heap_load h1 a)) ''invoke'')
                             (GetIdentity c),
                           CallInvoke (ContractID (heap_load h1 a))])))))"
  by (auto simp: consumeInvoke_def hasAccess_cases split: sum.splits option.splits)

lemma consumeDelete_cases:
  "consumeDelete d act c h key =
     (case ctx_Read d (page c) h key of
        (Inl e, h1) \<Rightarrow> (Inl (CouldntReadInstance e), h1, [CallRead key])
      | (Inr a, h1) \<Rightarrow>
          (Inr a, heap_store h1 a ((heap_load h1 a)\<lparr>Deleted := True\<rparr>), [CallRead key]))"
  by (simp add: consumeDelete_def split: prod.splits sum.splits)

lemma consumeSpawn_no_Write: "filter is_Write (snd (snd (consumeSpawn d act c h cid arg))) = []"
  by (cases "ctx_Read d (page c) h (GetID c)"; cases "fst (ctx_Read d (page c) h (GetID c))")
    (simp_all add: consumeSpawn_existing consumeSpawn_absent
      split: sum.splits option.splits prod.splits)

lemma consumeInvoke_no_Write: "filter is_Write (snd (snd (consumeInvoke d act c h key arg))) = []"
  by (cases "ctx_Read d (page c) h key"; cases "fst (ctx_Read d (page c) h key)")
    (simp_all add: consumeInvoke_existing consumeInvoke_absent
      split: sum.splits option.splits prod.splits)

lemma consumeDelete_no_Write: "filter is_Write (snd (snd (consumeDelete d act c h key))) = []"
  by (simp add: consumeDelete_cases split: prod.splits sum.splits)

lemma consumeTask_no_Write: "filter is_Write (snd (snd (consumeTask d act c h t))) = []"
  by (cases t) (simp_all add: consumeSpawn_no_Write consumeInvoke_no_Write consumeDelete_no_Write)

lemma consumeSpawn_failure_heap:
  "consumeSpawn d act c h cid arg = (Inl e, h', cs) \<Longrightarrow>
   h' = snd (ctx_Read d (page c) h (GetID c))"
  by (cases "ctx_Read d (page c) h (GetID c)"; cases "fst (ctx_Read d (page c) h (GetID c))")
    (auto simp: consumeSpawn_existing consumeSpawn_absent
      split: sum.splits option.splits prod.splits)

lemma consumeInvoke_failure_heap:
  "consumeInvoke d act c h key arg = (Inl e, h', cs) \<Longrightarrow>
   h' = snd (ctx_Read d (page c) h key)"
  by (cases "ctx_Read d (page c) h key"; cases "fst (ctx_Read d (page c) h key)")
    (auto simp: consumeInvoke_existing consumeInvoke_absent
      split: sum.splits option.splits prod.splits)

lemma consumeDelete_failure_heap:
  "consumeDelete d act c h key = (Inl e, h', cs) \<Longrightarrow>
   h' = snd (ctx_Read d (page c) h key)"
  by (auto simp: consumeDelete_cases split: prod.splits sum.splits)

lemma consumeTask_failure_heap:
  "consumeTask d act c h t = (Inl e, h', cs) \<Longrightarrow>
   h' = snd (ctx_Read d (page c) h (read_key (GetID c) t))"
  by (cases t)
    (simp_all add: consumeSpawn_failure_heap consumeInvoke_failure_heap
      consumeDelete_failure_heap)

lemma Consume_ContractTask:
  "ClientTask act = ContractTask t \<Longrightarrow>
   Consume d act ctx pg h =
     (case consumeTask d act \<lparr>GetID = GetID ctx, GetIdentity = GetIdentity ctx, page = pg\<rparr> h t of
        (Inl err, h1, cs) \<Rightarrow> (Some err, pg, h1, cs)
      | (Inr a, h1, cs) \<Rightarrow>
          (map_option CouldntWriteInstance
             (fst (page_Write d pg h1 (Key (heap_load h1 a)) a)),
           snd (page_Write d pg h1 (Key (heap_load h1 a)) a), h1,
           cs @ [CallWrite (Key (heap_load h1 a)) a]))"
  by (simp add: Consume_def split: prod.splits sum.splits option.splits)

lemma quiet_read_mem: "quiet_read mem"
  by (simp add: quiet_read_def observe_def mem_def MemPage_Read_def split: option.splits)

lemma reads_back_mem: "reads_back mem"
  by (simp add: reads_back_def observe_def mem_def MemPage_Read_def MemPage_Write_def)

text \<open>
  Claim C1. For a spawn, invoke or delete task, any context, any page and any heap: no
  call of the transition is a write. Where the transition fails, \<^verbatim>\<open>Consume\<close> returns that
  error, the page is the page it was given, and the heap is the heap that the read of the
  transition left, with no store through a pointer and no instance made; so on a page
  whose reads change nothing that a reader sees, every key shows what it showed before.
  Where the transition gives an instance, \<^verbatim>\<open>Consume\<close> makes one write, of that pointer
  under the key of the instance, as its last call; the page afterwards is the page of
  that write, and the result is the result of that write.
\<close>

theorem Consume_writes_once_or_never:
  "ClientTask act = ContractTask t \<Longrightarrow>
   consumeTask d act \<lparr>GetID = GetID ctx, GetIdentity = GetIdentity ctx, page = pg\<rparr> h t
     = (r, h', cs) \<Longrightarrow>
   filter is_Write cs = []
   \<and> (case r of
        Inl e \<Rightarrow>
          Consume d act ctx pg h = (Some e, pg, h', cs)
          \<and> h' = snd (ctx_Read d pg h (read_key (GetID ctx) t))
          \<and> (quiet_read d \<longrightarrow> observe d pg h' = observe d pg h)
      | Inr a \<Rightarrow>
          Consume d act ctx pg h =
            (map_option CouldntWriteInstance
               (fst (page_Write d pg h' (Key (heap_load h' a)) a)),
             snd (page_Write d pg h' (Key (heap_load h' a)) a), h',
             cs @ [CallWrite (Key (heap_load h' a)) a])
          \<and> filter is_Write (cs @ [CallWrite (Key (heap_load h' a)) a])
              = [CallWrite (Key (heap_load h' a)) a])"
proof -
  let ?c = "\<lparr>GetID = GetID ctx, GetIdentity = GetIdentity ctx, page = pg\<rparr>"
  assume act: "ClientTask act = ContractTask t"
    and run: "consumeTask d act ?c h t = (r, h', cs)"
  have quiet: "filter is_Write cs = []"
    using consumeTask_no_Write [of d act ?c h t] run by simp
  show ?thesis
  proof (cases r)
    case (Inl e)
    with run have heap: "h' = snd (ctx_Read d pg h (read_key (GetID ctx) t))"
      using consumeTask_failure_heap [of d act ?c h t e h' cs] by simp
    have "observe d pg h' = observe d pg h" if "quiet_read d"
      using that heap unfolding quiet_read_def by (intro ext) simp
    with Inl run quiet heap show ?thesis
      by (simp add: Consume_ContractTask [OF act])
  next
    case (Inr a)
    with run quiet show ?thesis
      by (simp add: Consume_ContractTask [OF act])
  qed
qed


lemma spawn_run:
  "consumeTask mem (coinTask (SpawnTask ''coin'' 0))
      \<lparr>GetID = GetID alice, GetIdentity = GetIdentity alice, page = Map.empty\<rparr> heap0
      (SpawnTask ''coin'' 0) =
    (Inr 0, heap1,
     [CallRead k1, CallSpawn ''coin'', CallGetArc A0, CallMatch ''coin:spawn'' ''alice''])"
  by (simp add: example_defs consume_defs)

lemma bob_invoke_run:
  "consumeTask mem (coinTask (InvokeTask k1 (-30)))
      \<lparr>GetID = GetID bob, GetIdentity = GetIdentity bob, page = page1\<rparr> heap1
      (InvokeTask k1 (-30)) =
    (Inl (NoAccess (Refused ''coin:invoke'' (Failure ''unauthorized''))), heap1,
     [CallRead k1, CallGetArc A0, CallMatch ''coin:invoke'' ''bob''])"
  by (simp add: example_defs consume_defs)

theorem Consume_writes_once_or_never_witness:
  "Consume mem (coinTask (SpawnTask ''coin'' 0)) alice Map.empty heap0 =
     (None, page1, heap1,
      [CallRead k1, CallSpawn ''coin'', CallGetArc A0, CallMatch ''coin:spawn'' ''alice'',
       CallWrite k1 0])
   \<and> Consume mem (coinTask (InvokeTask k1 (-30))) bob page1 heap1 =
     (Some (NoAccess (Refused ''coin:invoke'' (Failure ''unauthorized''))), page1, heap1,
      [CallRead k1, CallGetArc A0, CallMatch ''coin:invoke'' ''bob''])"
proof -
  have a1: "ClientTask (coinTask (SpawnTask ''coin'' 0)) = ContractTask (SpawnTask ''coin'' 0)"
    by (simp add: coinTask_def)
  have a2: "ClientTask (coinTask (InvokeTask k1 (-30))) = ContractTask (InvokeTask k1 (-30))"
    by (simp add: coinTask_def)
  have key: "Key (heap_load heap1 0) = k1"
    by (simp add: heap_load_def heap1_def coin100_def)
  have w: "page_Write mem Map.empty heap1 k1 0 = (None, page1)"
    by (simp add: mem_def MemPage_Write_def page1_def)
  show ?thesis
    using Consume_writes_once_or_never [OF a1 spawn_run] Consume_writes_once_or_never [OF a2 bob_invoke_run] quiet_read_mem key w
    by simp
qed

text \<open>
  The store through the pointer comes before the write. On a page that hands out the
  pointers it stores and refuses the write, the delete of the example returns the error
  of the write, and the instance under the key is marked deleted all the same.
\<close>

lemma Delete_mark_survives_failed_write:
  "Consume full (coinTask (DeleteTask k1)) bob page1 heap1 =
     (Some (CouldntWriteInstance (Failure ''disk full'')), page1,
      heap_store heap1 0 (coin100\<lparr>Deleted := True\<rparr>), [CallRead k1, CallWrite k1 0])
   \<and> observe full page1 heap1 k1 = Inr coin100
   \<and> observe full page1 (heap_store heap1 0 (coin100\<lparr>Deleted := True\<rparr>)) k1
       = Inr (coin100\<lparr>Deleted := True\<rparr>)"
  by (simp add: example_defs consume_defs observe_def)

text \<open>
  Claim C2 fails in its last part: an access control that allows the identity does not
  make the invoke succeed. In the example, \<open>alice\<close> is allowed the rule, and her invoke
  that would take 200 from the balance of 100 fails in the contract, after the contract
  was called; the page and the heap are unchanged.
\<close>

theorem Invoke_fails_although_allowed:
  "ctx_Read mem page1 heap1 k1 = (Inr 0, heap1)
   \<and> ctx_GetArc mem page1 heap1 (AccessControl (heap_load heap1 0)) = Inr alice_only
   \<and> alice_only (arc_Compile mem (ContractID (heap_load heap1 0)) ''invoke'') (GetIdentity alice)
       = None
   \<and> Consume mem (coinTask (InvokeTask k1 (-200))) alice page1 heap1 =
     (Some (CouldntInvoke (Failure ''insufficient balance'')), page1, heap1,
      [CallRead k1, CallGetArc A0, CallMatch ''coin:invoke'' ''alice'', CallInvoke ''coin''])"
  by (simp add: example_defs consume_defs)

text \<open>
  Claim C2, amended. For an invoke task on a key that holds an instance, the access control
  of that instance is looked up and the rule of its contract identifier and \<open>invoke\<close>
  is matched against the identity of the context before the contract is called. Where the
  access control cannot be read or refuses the identity, \<^verbatim>\<open>Consume\<close> returns the
  no-access error, the calls made hold no call of the contract, and the page, the heap and
  so the instance are as the read left them. Where the access control allows the
  identity, the contract of the instance is looked up and its invoke entry point called:
  with no contract registered, or an entry point that fails, \<^verbatim>\<open>Consume\<close> returns that
  error and the page and the instance are unchanged; with an entry point that returns a
  value, the transition stores that value in the instance, after the read, the lookup,
  the match and the call of the contract in this order, and \<^verbatim>\<open>Consume\<close> writes the
  pointer and returns the result of the write.
\<close>

theorem Invoke_authorizes_then_runs_contract:
  "ClientTask act = ContractTask (InvokeTask key arg) \<Longrightarrow>
   ctx_Read d pg h key = (Inr a, h1) \<Longrightarrow>
   inst = heap_load h1 a \<Longrightarrow>
   rule = arc_Compile d (ContractID inst) ''invoke'' \<Longrightarrow>
   c = \<lparr>GetID = GetID ctx, GetIdentity = GetIdentity ctx, page = pg\<rparr> \<Longrightarrow>
   (ctx_GetArc d pg h1 (AccessControl inst) = Inl e \<longrightarrow>
      Consume d act ctx pg h =
        (Some (NoAccess (CouldntReadAccess e)), pg, h1,
         [CallRead key, CallGetArc (AccessControl inst)]))
   \<and> (ctx_GetArc d pg h1 (AccessControl inst) = Inr access
       \<and> access rule (GetIdentity ctx) = Some e \<longrightarrow>
      Consume d act ctx pg h =
        (Some (NoAccess (Refused rule e)), pg, h1,
         [CallRead key, CallGetArc (AccessControl inst), CallMatch rule (GetIdentity ctx)])
      \<and> heap_load (fst (snd (snd (Consume d act ctx pg h)))) a = inst)
   \<and> (ctx_GetArc d pg h1 (AccessControl inst) = Inr access
       \<and> access rule (GetIdentity ctx) = None \<and> contracts act (ContractID inst) = None \<longrightarrow>
      Consume d act ctx pg h =
        (Some (ContractNotFound (ContractID inst)), pg, h1,
         [CallRead key, CallGetArc (AccessControl inst), CallMatch rule (GetIdentity ctx)]))
   \<and> (ctx_GetArc d pg h1 (AccessControl inst) = Inr access
       \<and> access rule (GetIdentity ctx) = None \<and> contracts act (ContractID inst) = Some exec
       \<and> Invoke exec c h1 key arg = Inl e \<longrightarrow>
      Consume d act ctx pg h =
        (Some (CouldntInvoke e), pg, h1,
         [CallRead key, CallGetArc (AccessControl inst), CallMatch rule (GetIdentity ctx),
          CallInvoke (ContractID inst)]))
   \<and> (ctx_GetArc d pg h1 (AccessControl inst) = Inr access
       \<and> access rule (GetIdentity ctx) = None \<and> contracts act (ContractID inst) = Some exec
       \<and> Invoke exec c h1 key arg = Inr v \<longrightarrow>
      consumeInvoke d act c h key arg =
        (Inr a, heap_store h1 a (inst\<lparr>Value := v\<rparr>),
         [CallRead key, CallGetArc (AccessControl inst), CallMatch rule (GetIdentity ctx),
          CallInvoke (ContractID inst)])
      \<and> heap_load (heap_store h1 a (inst\<lparr>Value := v\<rparr>)) a = inst\<lparr>Value := v\<rparr>
      \<and> Consume d act ctx pg h =
        (map_option CouldntWriteInstance
           (fst (page_Write d pg (heap_store h1 a (inst\<lparr>Value := v\<rparr>)) (Key inst) a)),
         snd (page_Write d pg (heap_store h1 a (inst\<lparr>Value := v\<rparr>)) (Key inst) a),
         heap_store h1 a (inst\<lparr>Value := v\<rparr>),
         [CallRead key, CallGetArc (AccessControl inst), CallMatch rule (GetIdentity ctx),
          CallInvoke (ContractID inst), CallWrite (Key inst) a]))"
proof -
  assume act: "ClientTask act = ContractTask (InvokeTask key arg)"
    and rd: "ctx_Read d pg h key = (Inr a, h1)"
    and inst: "inst = heap_load h1 a"
    and rule: "rule = arc_Compile d (ContractID inst) ''invoke''"
    and c: "c = \<lparr>GetID = GetID ctx, GetIdentity = GetIdentity ctx, page = pg\<rparr>"
  from rd c have rd': "ctx_Read d (page c) h key = (Inr a, h1)"
    by simp
  note inv = consumeInvoke_existing [OF rd', of act arg]
  note con = Consume_ContractTask [OF act, of d ctx pg h]
  show ?thesis
  proof (intro conjI impI)
    assume "ctx_GetArc d pg h1 (AccessControl inst) = Inl e"
    then show "Consume d act ctx pg h =
        (Some (NoAccess (CouldntReadAccess e)), pg, h1,
         [CallRead key, CallGetArc (AccessControl inst)])"
      using inv c inst by (simp add: con)
  next
    assume "ctx_GetArc d pg h1 (AccessControl inst) = Inr access
       \<and> access rule (GetIdentity ctx) = Some e"
    then show res: "Consume d act ctx pg h =
        (Some (NoAccess (Refused rule e)), pg, h1,
         [CallRead key, CallGetArc (AccessControl inst), CallMatch rule (GetIdentity ctx)])"
      using inv c inst rule by (simp add: con)
    show "heap_load (fst (snd (snd (Consume d act ctx pg h)))) a = inst"
      using inst by (simp add: res)
  next
    assume "ctx_GetArc d pg h1 (AccessControl inst) = Inr access
       \<and> access rule (GetIdentity ctx) = None \<and> contracts act (ContractID inst) = None"
    then show "Consume d act ctx pg h =
        (Some (ContractNotFound (ContractID inst)), pg, h1,
         [CallRead key, CallGetArc (AccessControl inst), CallMatch rule (GetIdentity ctx)])"
      using inv c inst rule by (simp add: con)
  next
    assume "ctx_GetArc d pg h1 (AccessControl inst) = Inr access
       \<and> access rule (GetIdentity ctx) = None \<and> contracts act (ContractID inst) = Some exec
       \<and> Invoke exec c h1 key arg = Inl e"
    then show "Consume d act ctx pg h =
        (Some (CouldntInvoke e), pg, h1,
         [CallRead key, CallGetArc (AccessControl inst), CallMatch rule (GetIdentity ctx),
          CallInvoke (ContractID inst)])"
      using inv c inst rule by (simp add: con)
  next
    assume ok: "ctx_GetArc d pg h1 (AccessControl inst) = Inr access
       \<and> access rule (GetIdentity ctx) = None \<and> contracts act (ContractID inst) = Some exec
       \<and> Invoke exec c h1 key arg = Inr v"
    then show res: "consumeInvoke d act c h key arg =
        (Inr a, heap_store h1 a (inst\<lparr>Value := v\<rparr>),
         [CallRead key, CallGetArc (AccessControl inst), CallMatch rule (GetIdentity ctx),
          CallInvoke (ContractID inst)])"
      using inv c inst rule by simp
    show "heap_load (heap_store h1 a (inst\<lparr>Value := v\<rparr>)) a = inst\<lparr>Value := v\<rparr>"
      by (simp add: heap_load_store)
    show "Consume d act ctx pg h =
        (map_option CouldntWriteInstance
           (fst (page_Write d pg (heap_store h1 a (inst\<lparr>Value := v\<rparr>)) (Key inst) a)),
         snd (page_Write d pg (heap_store h1 a (inst\<lparr>Value := v\<rparr>)) (Key inst) a),
         heap_store h1 a (inst\<lparr>Value := v\<rparr>),
         [CallRead key, CallGetArc (AccessControl inst), CallMatch rule (GetIdentity ctx),
          CallInvoke (ContractID inst), CallWrite (Key inst) a])"
      using res c by (simp add: con heap_load_store)
  qed
qed

theorem Invoke_authorizes_then_runs_contract_witness:
  "Consume mem (coinTask (InvokeTask k1 (-30))) bob page1 heap1 =
     (Some (NoAccess (Refused ''coin:invoke'' (Failure ''unauthorized''))), page1, heap1,
      [CallRead k1, CallGetArc A0, CallMatch ''coin:invoke'' ''bob''])
   \<and> Consume mem (coinTask (InvokeTask k1 (-30))) alice page1 heap1 =
     (None, page1, heap_store heap1 0 (coin100\<lparr>Value := 70\<rparr>),
      [CallRead k1, CallGetArc A0, CallMatch ''coin:invoke'' ''alice'', CallInvoke ''coin'',
       CallWrite k1 0])
   \<and> Consume mem (coinTask (InvokeTask k1 (-200))) alice page1 heap1 =
     (Some (CouldntInvoke (Failure ''insufficient balance'')), page1, heap1,
      [CallRead k1, CallGetArc A0, CallMatch ''coin:invoke'' ''alice'', CallInvoke ''coin''])"
proof -
  have act: "ClientTask (coinTask (InvokeTask k1 n)) = ContractTask (InvokeTask k1 n)" for n
    by (simp add: coinTask_def)
  have rd: "ctx_Read mem page1 heap1 k1 = (Inr 0, heap1)"
    by (simp add: mem_def MemPage_Read_def page1_def)
  have inst: "coin100 = heap_load heap1 0"
    by (simp add: heap_load_def heap1_def)
  have rule: "''coin:invoke'' = arc_Compile mem (ContractID coin100) ''invoke''"
    by (simp add: mem_def Compile_def coin100_def)
  have arc: "ctx_GetArc mem page1 heap1 (AccessControl coin100) = Inr alice_only"
    by (simp add: mem_def MemPage_GetArc_def coin100_def)
  have deny: "alice_only ''coin:invoke'' (GetIdentity bob) = Some (Failure ''unauthorized'')"
    by (simp add: alice_only_def bob_def)
  have allow: "alice_only ''coin:invoke'' (GetIdentity alice) = None"
    by (simp add: alice_only_def alice_def)
  have reg: "contracts (coinTask (InvokeTask k1 n)) (ContractID coin100) = Some coin" for n
    by (simp add: coinTask_def registry_def coin100_def)
  have run: "Invoke coin \<lparr>GetID = GetID alice, GetIdentity = GetIdentity alice,
      page = page1\<rparr> heap1 k1 (-30) = Inr 70"
    by (simp add: coin_def MemPage_Read_def page1_def heap_load_def heap1_def coin100_def)
  have fail: "Invoke coin \<lparr>GetID = GetID alice, GetIdentity = GetIdentity alice,
      page = page1\<rparr> heap1 k1 (-200) = Inl (Failure ''insufficient balance'')"
    by (simp add: coin_def MemPage_Read_def page1_def heap_load_def heap1_def coin100_def)
  have wr: "page_Write mem page1 (heap_store heap1 0 (coin100\<lparr>Value := 70\<rparr>)) (Key coin100) 0
      = (None, page1)"
    by (simp add: mem_def MemPage_Write_def coin100_def page1_def)
  have denied: "Consume mem (coinTask (InvokeTask k1 (-30))) bob page1 heap1 =
     (Some (NoAccess (Refused ''coin:invoke'' (Failure ''unauthorized''))), page1, heap1,
      [CallRead k1, CallGetArc A0, CallMatch ''coin:invoke'' ''bob''])"
    using Invoke_authorizes_then_runs_contract [OF act rd inst rule refl, where ctx = bob and e = "Failure ''unauthorized''"
        and access = alice_only and exec = coin and v = 70]
      arc deny
    by (simp add: coin100_def bob_def)
  have allowed: "Consume mem (coinTask (InvokeTask k1 (-30))) alice page1 heap1 =
     (None, page1, heap_store heap1 0 (coin100\<lparr>Value := 70\<rparr>),
      [CallRead k1, CallGetArc A0, CallMatch ''coin:invoke'' ''alice'', CallInvoke ''coin'',
       CallWrite k1 0])"
    using Invoke_authorizes_then_runs_contract [OF act rd inst rule refl, where ctx = alice and e = "Failure ''unauthorized''"
        and access = alice_only and exec = coin and v = 70]
      arc allow reg run wr
    by (simp add: coin100_def alice_def)
  have failed: "Consume mem (coinTask (InvokeTask k1 (-200))) alice page1 heap1 =
     (Some (CouldntInvoke (Failure ''insufficient balance'')), page1, heap1,
      [CallRead k1, CallGetArc A0, CallMatch ''coin:invoke'' ''alice'', CallInvoke ''coin''])"
    using Invoke_authorizes_then_runs_contract [OF act rd inst rule refl, where ctx = alice
        and e = "Failure ''insufficient balance''" and access = alice_only and exec = coin
        and v = 70]
      arc allow reg fail
    by (simp add: coin100_def alice_def)
  show ?thesis
    using denied allowed failed by blast
qed


lemma consumeSpawn_Key:
  "consumeSpawn d act c h cid arg = (Inr a, h', cs) \<Longrightarrow> Key (heap_load h' a) = GetID c"
  by (cases "ctx_Read d (page c) h (GetID c)"; cases "fst (ctx_Read d (page c) h (GetID c))")
    (auto simp: consumeSpawn_existing consumeSpawn_absent heap_load_new
      split: sum.splits option.splits prod.splits)

text \<open>
  Claim C3. A spawn task whose derived key holds an instance (the read succeeds) fails
  with the error that the instance already exists, after the read and no other call, and
  the page is unchanged. So on a page that reads back what was written to it, after a
  spawn that succeeded, every spawn at the same derived key fails in this way, whatever
  its contract, argument and identity, and leaves the page of the first spawn.
\<close>

theorem Spawn_refuses_existing_instance:
  "ClientTask act = ContractTask (SpawnTask cid arg) \<Longrightarrow>
   (ctx_Read d pg h (GetID ctx) = (Inr a, h1) \<longrightarrow>
      Consume d act ctx pg h = (Some InstanceAlreadyExists, pg, h1, [CallRead (GetID ctx)]))
   \<and> (reads_back d \<and> ClientTask act' = ContractTask (SpawnTask cid' arg')
       \<and> Consume d act' ctx' pg' h' = (None, pg, h, cs') \<and> GetID ctx = GetID ctx' \<longrightarrow>
      Consume d act ctx pg h =
        (Some InstanceAlreadyExists, pg, snd (ctx_Read d pg h (GetID ctx)),
         [CallRead (GetID ctx)]))"
proof -
  assume act: "ClientTask act = ContractTask (SpawnTask cid arg)"
  have exists: "Consume d act ctx pg h = (Some InstanceAlreadyExists, pg, hr, [CallRead (GetID ctx)])"
    if "ctx_Read d pg h (GetID ctx) = (Inr b, hr)" for b hr
    using that by (simp add: Consume_ContractTask [OF act] consumeSpawn_existing)
  have second: "Consume d act ctx pg h =
        (Some InstanceAlreadyExists, pg, snd (ctx_Read d pg h (GetID ctx)), [CallRead (GetID ctx)])"
    if rb: "reads_back d" and act1: "ClientTask act' = ContractTask (SpawnTask cid' arg')"
      and first: "Consume d act' ctx' pg' h' = (None, pg, h, cs')" and same: "GetID ctx = GetID ctx'"
  proof -
    let ?c' = "\<lparr>GetID = GetID ctx', GetIdentity = GetIdentity ctx', page = pg'\<rparr>"
    obtain r hs cs where run: "consumeSpawn d act' ?c' h' cid' arg' = (r, hs, cs)"
      by (cases "consumeSpawn d act' ?c' h' cid' arg'")
    from first run obtain b where r: "r = Inr b"
      by (cases r) (simp_all add: Consume_ContractTask [OF act1])
    from first run r have hs: "hs = h"
      by (simp add: Consume_ContractTask [OF act1])
    from run r hs have key: "Key (heap_load h b) = GetID ctx'"
      using consumeSpawn_Key [of d act' ?c' h' cid' arg' b h cs] by simp
    from first run r hs have "page_Write d pg' h (Key (heap_load h b)) b = (None, pg)"
      by (cases "page_Write d pg' h (Key (heap_load h b)) b")
        (simp add: Consume_ContractTask [OF act1] split: option.splits)
    with rb have "observe d pg h (Key (heap_load h b)) = Inr (heap_load h b)"
      unfolding reads_back_def by blast
    with key same have "observe d pg h (GetID ctx) = Inr (heap_load h b)"
      by simp
    then obtain b' hr where "ctx_Read d pg h (GetID ctx) = (Inr b', hr)"
      by (auto simp: observe_def split: prod.splits sum.splits)
    then show ?thesis
      using exists [of b' hr] by simp
  qed
  show ?thesis
    using exists second by blast
qed

theorem Spawn_refuses_existing_instance_witness:
  "Consume mem (coinTask (SpawnTask ''coin'' 0)) alice Map.empty heap0 =
     (None, page1, heap1,
      [CallRead k1, CallSpawn ''coin'', CallGetArc A0, CallMatch ''coin:spawn'' ''alice'',
       CallWrite k1 0])
   \<and> Consume mem (coinTask (SpawnTask ''coin'' 7)) bob page1 heap1 =
     (Some InstanceAlreadyExists, page1, heap1, [CallRead k1])"
proof -
  have act: "ClientTask (coinTask (SpawnTask ''coin'' 7)) = ContractTask (SpawnTask ''coin'' 7)"
    by (simp add: coinTask_def)
  have act1: "ClientTask (coinTask (SpawnTask ''coin'' 0)) = ContractTask (SpawnTask ''coin'' 0)"
    by (simp add: coinTask_def)
  have rd: "ctx_Read mem page1 heap1 (GetID bob) = (Inr 0, heap1)"
    by (simp add: mem_def MemPage_Read_def bob_def page1_def)
  have first: "Consume mem (coinTask (SpawnTask ''coin'' 0)) alice Map.empty heap0 =
      (None, page1, heap1,
       [CallRead k1, CallSpawn ''coin'', CallGetArc A0, CallMatch ''coin:spawn'' ''alice'',
        CallWrite k1 0])"
    by (simp add: example_defs consume_defs)
  have same: "GetID bob = GetID alice"
    by (simp add: alice_def bob_def)
  show ?thesis
    using Spawn_refuses_existing_instance [OF act, where d = mem and pg = page1 and h = heap1 and ctx = bob
        and a = 0 and ?h1.0 = heap1 and act' = "coinTask (SpawnTask ''coin'' 0)"
        and cid' = "''coin''" and arg' = 0 and ctx' = alice and pg' = Map.empty and h' = heap0
        and cs' = "[CallRead k1, CallSpawn ''coin'', CallGetArc A0,
          CallMatch ''coin:spawn'' ''alice'', CallWrite k1 0]"]
      rd reads_back_mem act1 first same
    by (simp add: bob_def)
qed

text \<open>
  Claim C4. For a spawn task whose derived key holds no instance and whose contract is
  registered, the spawn entry point of the contract is called first: where it fails, the
  transition fails after the read and that call, with no access control looked up. Where
  it returns a value and an access-control identifier, that identifier is looked up and
  the rule of the contract identifier and \<open>spawn\<close> is matched against the identity;
  a failed lookup or a refusal is a no-access error, and otherwise the instance made has
  the derived key, the access-control identifier and value of the contract, the contract
  identifier of the task, and is not deleted.
\<close>

theorem Spawn_executes_then_authorizes:
  "ctx_Read d (page c) h (GetID c) = (Inl e0, h1) \<Longrightarrow>
   contracts act cid = Some exec \<Longrightarrow>
   rule = arc_Compile d cid ''spawn'' \<Longrightarrow>
   made = \<lparr>Key = GetID c, AccessControl = arcid, ContractID = cid, Deleted = False,
            Value = v\<rparr> \<Longrightarrow>
   (Spawn exec c h1 cid arg = Inl e \<longrightarrow>
      consumeSpawn d act c h cid arg =
        (Inl (CouldntExecuteSpawn e), h1, [CallRead (GetID c), CallSpawn cid]))
   \<and> (Spawn exec c h1 cid arg = Inr (v, arcid) \<and> ctx_GetArc d (page c) h1 arcid = Inl e \<longrightarrow>
      consumeSpawn d act c h cid arg =
        (Inl (NoAccess (CouldntReadAccess e)), h1,
         [CallRead (GetID c), CallSpawn cid, CallGetArc arcid]))
   \<and> (Spawn exec c h1 cid arg = Inr (v, arcid) \<and> ctx_GetArc d (page c) h1 arcid = Inr access
       \<and> access rule (GetIdentity c) = Some e \<longrightarrow>
      consumeSpawn d act c h cid arg =
        (Inl (NoAccess (Refused rule e)), h1,
         [CallRead (GetID c), CallSpawn cid, CallGetArc arcid, CallMatch rule (GetIdentity c)]))
   \<and> (Spawn exec c h1 cid arg = Inr (v, arcid) \<and> ctx_GetArc d (page c) h1 arcid = Inr access
       \<and> access rule (GetIdentity c) = None \<longrightarrow>
      consumeSpawn d act c h cid arg =
        (Inr (fst (heap_new h1 made)), snd (heap_new h1 made),
         [CallRead (GetID c), CallSpawn cid, CallGetArc arcid, CallMatch rule (GetIdentity c)])
      \<and> heap_load (snd (heap_new h1 made)) (fst (heap_new h1 made)) = made)"
  by (simp add: consumeSpawn_absent heap_load_new)

theorem Spawn_executes_then_authorizes_witness:
  "consumeSpawn mem (coinTask (SpawnTask ''coin'' 0))
      \<lparr>GetID = k1, GetIdentity = ''alice'', page = Map.empty\<rparr> heap0 ''coin'' 0 =
     (Inr 0, heap1,
      [CallRead k1, CallSpawn ''coin'', CallGetArc A0, CallMatch ''coin:spawn'' ''alice''])
   \<and> heap_load heap1 0
       = \<lparr>Key = k1, AccessControl = A0, ContractID = ''coin'', Deleted = False, Value = 100\<rparr>
   \<and> consumeSpawn mem (coinTask (SpawnTask ''coin'' 0))
      \<lparr>GetID = k1, GetIdentity = ''bob'', page = Map.empty\<rparr> heap0 ''coin'' 0 =
     (Inl (NoAccess (Refused ''coin:spawn'' (Failure ''unauthorized''))), heap0,
      [CallRead k1, CallSpawn ''coin'', CallGetArc A0, CallMatch ''coin:spawn'' ''bob''])"
proof -
  let ?a = "\<lparr>GetID = k1, GetIdentity = ''alice'', page = (Map.empty :: MemPage)\<rparr>"
  let ?b = "\<lparr>GetID = k1, GetIdentity = ''bob'', page = (Map.empty :: MemPage)\<rparr>"
  have ra: "ctx_Read mem (page ?a) heap0 (GetID ?a) = (Inl (Failure ''not found''), heap0)"
    by (simp add: mem_def MemPage_Read_def)
  have rb: "ctx_Read mem (page ?b) heap0 (GetID ?b) = (Inl (Failure ''not found''), heap0)"
    by (simp add: mem_def MemPage_Read_def)
  have reg: "contracts (coinTask (SpawnTask ''coin'' 0)) ''coin'' = Some coin"
    by (simp add: coinTask_def registry_def)
  have rule: "''coin:spawn'' = arc_Compile mem ''coin'' ''spawn''"
    by (simp add: mem_def Compile_def)
  have made: "coin100 = \<lparr>Key = GetID ?a, AccessControl = A0, ContractID = ''coin'',
      Deleted = False, Value = 100\<rparr>"
    and made': "coin100 = \<lparr>Key = GetID ?b, AccessControl = A0, ContractID = ''coin'',
      Deleted = False, Value = 100\<rparr>"
    by (simp_all add: coin100_def)
  have sa: "Spawn coin ?a heap0 ''coin'' 0 = Inr (100, A0)"
    and sb: "Spawn coin ?b heap0 ''coin'' 0 = Inr (100, A0)"
    by (simp_all add: coin_def)
  have arc: "ctx_GetArc mem (Map.empty :: MemPage) heap0 A0 = Inr alice_only"
    by (simp add: mem_def MemPage_GetArc_def)
  have allow: "alice_only ''coin:spawn'' ''alice'' = None"
    and deny: "alice_only ''coin:spawn'' ''bob'' = Some (Failure ''unauthorized'')"
    by (simp_all add: alice_only_def)
  have new: "heap_new heap0 coin100 = (0, heap1)"
    by (simp add: heap_new_def heap0_def heap1_def)
  have "consumeSpawn mem (coinTask (SpawnTask ''coin'' 0)) ?a heap0 ''coin'' 0 =
     (Inr 0, heap1,
      [CallRead k1, CallSpawn ''coin'', CallGetArc A0, CallMatch ''coin:spawn'' ''alice''])
    \<and> heap_load heap1 0 = coin100"
    using Spawn_executes_then_authorizes [OF ra reg rule made, where arg = 0 and access = alice_only
        and e = "Failure ''unauthorized''"]
      sa arc allow new
    by simp
  moreover have "consumeSpawn mem (coinTask (SpawnTask ''coin'' 0)) ?b heap0 ''coin'' 0 =
     (Inl (NoAccess (Refused ''coin:spawn'' (Failure ''unauthorized''))), heap0,
      [CallRead k1, CallSpawn ''coin'', CallGetArc A0, CallMatch ''coin:spawn'' ''bob''])"
    using Spawn_executes_then_authorizes [OF rb reg rule made', where arg = 0 and access = alice_only
        and e = "Failure ''unauthorized''"]
      sb arc deny
    by simp
  ultimately show ?thesis
    by (simp add: coin100_def)
qed

text \<open>
  Claim C5. Where the invoke of a key that holds an instance succeeds, the pointer it
  gives is the pointer read, and the instance behind it is the instance read with its
  value replaced: key, contract identifier, access control and deleted flag are as they
  were, and the value is what the invoke entry point of the contract of that instance
  returned. No other instance of the heap changes.
\<close>

theorem Invoke_replaces_value_only:
  "ctx_Read d (page c) h key = (Inr a0, h1) \<Longrightarrow>
   consumeInvoke d act c h key arg = (Inr a, h', cs) \<Longrightarrow>
   a = a0
   \<and> Key (heap_load h' a) = Key (heap_load h1 a)
   \<and> ContractID (heap_load h' a) = ContractID (heap_load h1 a)
   \<and> AccessControl (heap_load h' a) = AccessControl (heap_load h1 a)
   \<and> Deleted (heap_load h' a) = Deleted (heap_load h1 a)
   \<and> heap_load h' a = (heap_load h1 a)\<lparr>Value := Value (heap_load h' a)\<rparr>
   \<and> (\<exists>exec. contracts act (ContractID (heap_load h1 a)) = Some exec
        \<and> Invoke exec c h1 key arg = Inr (Value (heap_load h' a)))
   \<and> (\<forall>b. b \<noteq> a \<longrightarrow> heap_load h' b = heap_load h1 b)"
  by (auto simp: consumeInvoke_existing heap_load_store split: sum.splits option.splits)

theorem Invoke_replaces_value_only_witness:
  "heap_load (heap_store heap1 0 (coin100\<lparr>Value := 70\<rparr>)) 0 = coin100\<lparr>Value := 70\<rparr>
   \<and> Key (coin100\<lparr>Value := 70\<rparr>) = Key coin100
   \<and> ContractID (coin100\<lparr>Value := 70\<rparr>) = ContractID coin100
   \<and> AccessControl (coin100\<lparr>Value := 70\<rparr>) = AccessControl coin100
   \<and> Deleted (coin100\<lparr>Value := 70\<rparr>) = Deleted coin100
   \<and> Invoke coin \<lparr>GetID = k1, GetIdentity = ''alice'', page = page1\<rparr> heap1 k1 (-30)
       = Inr (Value (coin100\<lparr>Value := 70\<rparr>))
   \<and> heap_load (heap_store heap1 0 (coin100\<lparr>Value := 70\<rparr>)) 1 = heap_load heap1 1"
proof -
  let ?c = "\<lparr>GetID = k1, GetIdentity = ''alice'', page = page1\<rparr>"
  have rd: "ctx_Read mem (page ?c) heap1 k1 = (Inr 0, heap1)"
    by (simp add: mem_def MemPage_Read_def page1_def)
  have run: "consumeInvoke mem (coinTask (InvokeTask k1 (-30))) ?c heap1 k1 (-30) =
      (Inr 0, heap_store heap1 0 (coin100\<lparr>Value := 70\<rparr>),
       [CallRead k1, CallGetArc A0, CallMatch ''coin:invoke'' ''alice'', CallInvoke ''coin''])"
    by (simp add: example_defs consume_defs)
  have at0: "heap_load heap1 0 = coin100"
    by (simp add: heap_load_def heap1_def)
  have reg: "contracts (coinTask (InvokeTask k1 (-30))) (ContractID coin100) = Some coin"
    by (simp add: coinTask_def registry_def coin100_def)
  show ?thesis
    using Invoke_replaces_value_only [OF rd run] reg at0 by (simp add: heap_load_store)
qed

text \<open>
  Claim C6. A delete task on a key whose read fails fails with the read's error, and
  nothing is written. On a key that holds an instance, the transition sets the deleted
  flag of that instance through the pointer read, every other field and every other
  instance staying as it was, and \<^verbatim>\<open>Consume\<close> writes the pointer. In both cases the
  calls made hold no call of a contract, no lookup of an access control and no match of
  a rule.
\<close>

theorem Delete_marks_without_checks:
  "ClientTask act = ContractTask (DeleteTask key) \<Longrightarrow>
   c = \<lparr>GetID = GetID ctx, GetIdentity = GetIdentity ctx, page = pg\<rparr> \<Longrightarrow>
   marked = heap_store h1 a ((heap_load h1 a)\<lparr>Deleted := True\<rparr>) \<Longrightarrow>
   (ctx_Read d pg h key = (Inl e, h1) \<longrightarrow>
      Consume d act ctx pg h = (Some (CouldntReadInstance e), pg, h1, [CallRead key]))
   \<and> (ctx_Read d pg h key = (Inr a, h1) \<longrightarrow>
      consumeDelete d act c h key = (Inr a, marked, [CallRead key])
      \<and> heap_load marked a = (heap_load h1 a)\<lparr>Deleted := True\<rparr>
      \<and> Deleted (heap_load marked a) = True
      \<and> Key (heap_load marked a) = Key (heap_load h1 a)
      \<and> ContractID (heap_load marked a) = ContractID (heap_load h1 a)
      \<and> AccessControl (heap_load marked a) = AccessControl (heap_load h1 a)
      \<and> Value (heap_load marked a) = Value (heap_load h1 a)
      \<and> (\<forall>b. b \<noteq> a \<longrightarrow> heap_load marked b = heap_load h1 b)
      \<and> Consume d act ctx pg h =
        (map_option CouldntWriteInstance
           (fst (page_Write d pg marked (Key (heap_load h1 a)) a)),
         snd (page_Write d pg marked (Key (heap_load h1 a)) a), marked,
         [CallRead key, CallWrite (Key (heap_load h1 a)) a]))
   \<and> filter is_contract_call (snd (snd (snd (Consume d act ctx pg h)))) = []
   \<and> filter is_access_call (snd (snd (snd (Consume d act ctx pg h)))) = []"
  by (cases "ctx_Read d pg h key"; cases "fst (ctx_Read d pg h key)")
    (simp_all add: Consume_ContractTask consumeDelete_cases heap_load_store)

theorem Delete_marks_without_checks_witness:
  "Consume mem (coinTask (DeleteTask k1)) bob Map.empty heap0 =
     (Some (CouldntReadInstance (Failure ''not found'')), Map.empty, heap0, [CallRead k1])
   \<and> Consume mem (coinTask (DeleteTask k1)) bob page1 heap1 =
     (None, page1, heap_store heap1 0 (coin100\<lparr>Deleted := True\<rparr>),
      [CallRead k1, CallWrite k1 0])
   \<and> heap_load (heap_store heap1 0 (coin100\<lparr>Deleted := True\<rparr>)) 0
       = coin100\<lparr>Deleted := True\<rparr>"
proof -
  have act: "ClientTask (coinTask (DeleteTask k1)) = ContractTask (DeleteTask k1)"
    by (simp add: coinTask_def)
  have absent: "ctx_Read mem (Map.empty :: MemPage) heap0 k1 = (Inl (Failure ''not found''), heap0)"
    by (simp add: mem_def MemPage_Read_def)
  have present: "ctx_Read mem page1 heap1 k1 = (Inr 0, heap1)"
    by (simp add: mem_def MemPage_Read_def page1_def)
  have at0: "heap_load heap1 0 = coin100"
    by (simp add: heap_load_def heap1_def)
  have wr: "page_Write mem page1 (heap_store heap1 0 (coin100\<lparr>Deleted := True\<rparr>)) k1 0
      = (None, page1)"
    by (simp add: mem_def MemPage_Write_def page1_def)
  have none: "Consume mem (coinTask (DeleteTask k1)) bob Map.empty heap0 =
     (Some (CouldntReadInstance (Failure ''not found'')), Map.empty, heap0, [CallRead k1])"
    using Delete_marks_without_checks [OF act refl refl, where d = mem and ctx = bob and pg = Map.empty and h = heap0
        and ?h1.0 = heap0 and a = 0 and e = "Failure ''not found''"]
      absent
    by simp
  have some: "Consume mem (coinTask (DeleteTask k1)) bob page1 heap1 =
     (None, page1, heap_store heap1 0 (coin100\<lparr>Deleted := True\<rparr>),
      [CallRead k1, CallWrite k1 0])
    \<and> heap_load (heap_store heap1 0 (coin100\<lparr>Deleted := True\<rparr>)) 0
       = coin100\<lparr>Deleted := True\<rparr>"
    using Delete_marks_without_checks [OF act refl refl, where d = mem and ctx = bob and pg = page1 and h = heap1
        and ?h1.0 = heap1 and a = 0 and e = "Failure ''not found''"]
      present at0 wr
    by (simp add: coin100_def)
  show ?thesis
    using none some by blast
qed


text \<open>
  Claim C9 fails: \<^verbatim>\<open>consumeSpawn\<close> returns on the read only when the read succeeds, and
  takes every error of the read for an absent instance. On the page whose reads fail with
  a storage failure, the spawn of \<open>coin\<close> does not abort: it calls the contract, and
  \<^verbatim>\<open>Consume\<close> succeeds and writes a new instance under the key, which held the
  instance with the balance 70.
\<close>

theorem Spawn_succeeds_on_storage_failure:
  "ctx_Read broken page1 (heap_store heap1 0 (coin100\<lparr>Value := 70\<rparr>)) (GetID alice)
     = (Inl (Failure ''storage failure''), heap_store heap1 0 (coin100\<lparr>Value := 70\<rparr>))
   \<and> observe mem page1 (heap_store heap1 0 (coin100\<lparr>Value := 70\<rparr>)) k1
       = Inr (coin100\<lparr>Value := 70\<rparr>)
   \<and> Consume broken (coinTask (SpawnTask ''coin'' 0)) alice page1
       (heap_store heap1 0 (coin100\<lparr>Value := 70\<rparr>)) =
     (None, [k1 \<mapsto> 1],
      snd (heap_new (heap_store heap1 0 (coin100\<lparr>Value := 70\<rparr>)) coin100),
      [CallRead k1, CallSpawn ''coin'', CallGetArc A0, CallMatch ''coin:spawn'' ''alice'',
       CallWrite k1 1])
   \<and> observe mem [k1 \<mapsto> 1]
       (snd (heap_new (heap_store heap1 0 (coin100\<lparr>Value := 70\<rparr>)) coin100)) k1
       = Inr coin100"
  by (simp add: example_defs consume_defs observe_def)

text \<open>
  Claim C9, amended. Where the read of the spawn transition fails, whatever the error, the
  spawn does not abort on it and goes on as it does for an absent instance: it fails
  when the contract is not registered and otherwise calls the spawn entry point of the
  contract right after the read. It returns at the read only where the read succeeds, with
  the error that the instance already exists; the contract is called only where the read
  failed.
\<close>

theorem Spawn_proceeds_on_any_read_failure:
  "(ctx_Read d (page c) h (GetID c) = (Inl e, h1) \<longrightarrow>
      consumeSpawn
          (d\<lparr>ctx_Read := \<lambda>p hp k. (Inl (Failure ''not found''), snd (ctx_Read d p hp k))\<rparr>)
          act c h cid arg
        = consumeSpawn d act c h cid arg
      \<and> (contracts act cid = None \<longrightarrow>
           consumeSpawn d act c h cid arg
             = (Inl (ContractNotFound cid), h1, [CallRead (GetID c)]))
      \<and> (contracts act cid = Some exec \<longrightarrow>
           take 2 (snd (snd (consumeSpawn d act c h cid arg)))
             = [CallRead (GetID c), CallSpawn cid]))
   \<and> (ctx_Read d (page c) h (GetID c) = (Inr a, h1) \<longrightarrow>
      consumeSpawn d act c h cid arg = (Inl InstanceAlreadyExists, h1, [CallRead (GetID c)]))
   \<and> (CallSpawn cid \<in> set (snd (snd (consumeSpawn d act c h cid arg))) \<longrightarrow>
        (\<exists>e. fst (ctx_Read d (page c) h (GetID c)) = Inl e))"
proof (intro conjI impI)
  assume rd: "ctx_Read d (page c) h (GetID c) = (Inl e, h1)"
  let ?d = "d\<lparr>ctx_Read := \<lambda>p hp k. (Inl (Failure ''not found''), snd (ctx_Read d p hp k))\<rparr>"
  have rd': "ctx_Read ?d (page c) h (GetID c) = (Inl (Failure ''not found''), h1)"
    using rd by simp
  show "consumeSpawn ?d act c h cid arg = consumeSpawn d act c h cid arg"
    by (simp add: consumeSpawn_absent [OF rd] consumeSpawn_absent [OF rd']
        split: option.splits sum.splits prod.splits)
  show "consumeSpawn d act c h cid arg = (Inl (ContractNotFound cid), h1, [CallRead (GetID c)])"
    if "contracts act cid = None"
    using that by (simp add: consumeSpawn_absent [OF rd])
  show "take 2 (snd (snd (consumeSpawn d act c h cid arg))) = [CallRead (GetID c), CallSpawn cid]"
    if "contracts act cid = Some exec"
    using that by (simp add: consumeSpawn_absent [OF rd] split: sum.splits option.splits prod.splits)
next
  assume "ctx_Read d (page c) h (GetID c) = (Inr a, h1)"
  then show "consumeSpawn d act c h cid arg = (Inl InstanceAlreadyExists, h1, [CallRead (GetID c)])"
    by (rule consumeSpawn_existing)
next
  assume called: "CallSpawn cid \<in> set (snd (snd (consumeSpawn d act c h cid arg)))"
  obtain r hr where rd: "ctx_Read d (page c) h (GetID c) = (r, hr)"
    by (cases "ctx_Read d (page c) h (GetID c)")
  show "\<exists>e. fst (ctx_Read d (page c) h (GetID c)) = Inl e"
  proof (cases r)
    case (Inl e)
    with rd show ?thesis by simp
  next
    case (Inr b)
    with rd called show ?thesis
      by (simp add: consumeSpawn_existing)
  qed
qed

theorem Spawn_proceeds_on_any_read_failure_witness:
  "take 2 (snd (snd (consumeSpawn broken (coinTask (SpawnTask ''coin'' 0))
      \<lparr>GetID = k1, GetIdentity = ''alice'', page = page1\<rparr> heap1 ''coin'' 0)))
     = [CallRead k1, CallSpawn ''coin'']
   \<and> consumeSpawn broken (coinTask (SpawnTask ''coin'' 0))
      \<lparr>GetID = k1, GetIdentity = ''alice'', page = page1\<rparr> heap1 ''token'' 0
     = (Inl (ContractNotFound ''token''), heap1, [CallRead k1])
   \<and> consumeSpawn mem (coinTask (SpawnTask ''coin'' 0))
      \<lparr>GetID = k1, GetIdentity = ''alice'', page = page1\<rparr> heap1 ''coin'' 0
     = (Inl InstanceAlreadyExists, heap1, [CallRead k1])"
proof -
  let ?c = "\<lparr>GetID = k1, GetIdentity = ''alice'', page = page1\<rparr>"
  let ?t = "coinTask (SpawnTask ''coin'' 0)"
  have fails: "ctx_Read broken (page ?c) heap1 (GetID ?c) = (Inl (Failure ''storage failure''), heap1)"
    by (simp add: broken_def)
  have holds: "ctx_Read mem (page ?c) heap1 (GetID ?c) = (Inr 0, heap1)"
    by (simp add: mem_def MemPage_Read_def page1_def)
  have reg: "contracts ?t ''coin'' = Some coin" and unreg: "contracts ?t ''token'' = None"
    by (simp_all add: coinTask_def registry_def)
  have called: "take 2 (snd (snd (consumeSpawn broken ?t ?c heap1 ''coin'' 0)))
      = [CallRead k1, CallSpawn ''coin'']"
    using Spawn_proceeds_on_any_read_failure [where d = broken and c = ?c and h = heap1 and ?h1.0 = heap1 and act = ?t
        and cid = "''coin''" and arg = 0 and e = "Failure ''storage failure''" and exec = coin
        and a = 0] fails reg
    by simp
  have missing: "consumeSpawn broken ?t ?c heap1 ''token'' 0
      = (Inl (ContractNotFound ''token''), heap1, [CallRead k1])"
    using Spawn_proceeds_on_any_read_failure [where d = broken and c = ?c and h = heap1 and ?h1.0 = heap1 and act = ?t
        and cid = "''token''" and arg = 0 and e = "Failure ''storage failure''" and exec = coin
        and a = 0] fails unreg
    by simp
  have refused: "consumeSpawn mem ?t ?c heap1 ''coin'' 0 = (Inl InstanceAlreadyExists, heap1, [CallRead k1])"
    using Spawn_proceeds_on_any_read_failure [where d = mem and c = ?c and h = heap1 and ?h1.0 = heap1 and act = ?t
        and cid = "''coin''" and arg = 0 and e = "Failure ''storage failure''" and exec = coin
        and a = 0] holds
    by simp
  show ?thesis
    using called missing refused by blast
qed

end
